theory Spec2Isabelle
  imports Complex_Main "HOL-Library.Sublist"
begin


section \<open>Python values of a parsed manifest\<close>

text \<open>
  The checker works on the dictionary that \<^verbatim>\<open>toml.loads\<close> returns for
  \<^verbatim>\<open>pyproject.toml\<close>. Its values are dynamically typed: strings, integers, floats,
  booleans, arrays and tables. A float is kept as the text Python prints for it (the only
  things the checker does with a float are printing it and comparing it with 120).
  Strings are lists of 8-bit characters, read as the code points 0..255.
  TOML date-times are left out.
\<close>

datatype pyval =
    VStr string
  | VInt int
  | VFloat string
  | VBool bool
  | VList "pyval list"
  | VDict "(string \<times> pyval) list"

type_synonym config = "(string \<times> pyval) list"

text \<open>The exceptions the modelled code can raise.\<close>

datatype error = TypeError | AttributeError | KeyError | ValueError | ZeroDivisionError

text \<open>Sequencing of computations that may raise.\<close>

definition ebind :: "error + 'a \<Rightarrow> ('a \<Rightarrow> error + 'b) \<Rightarrow> error + 'b" where
  "ebind m f = (case m of Inl e \<Rightarrow> Inl e | Inr x \<Rightarrow> f x)"

text \<open>Python's short-circuit \<^verbatim>\<open>a and b\<close> and \<^verbatim>\<open>a or b\<close> on conditions that may raise.\<close>

definition eand :: "error + bool \<Rightarrow> error + bool \<Rightarrow> error + bool" where
  "eand a b = (case a of Inl e \<Rightarrow> Inl e | Inr x \<Rightarrow> (if x then b else Inr False))"

definition eor :: "error + bool \<Rightarrow> error + bool \<Rightarrow> error + bool" where
  "eor a b = (case a of Inl e \<Rightarrow> Inl e | Inr x \<Rightarrow> (if x then Inr True else b))"

subsection \<open>Strings\<close>

text \<open>\<^verbatim>\<open>sub in s\<close> on two strings: \<^verbatim>\<open>sub\<close> occurs in \<^verbatim>\<open>s\<close> as a contiguous run.\<close>

fun str_in :: "string \<Rightarrow> string \<Rightarrow> bool" where
  "str_in sub [] = (sub = [])"
| "str_in sub (c # cs) = (prefix sub (c # cs) \<or> str_in sub cs)"

text \<open>\<^verbatim>\<open>sep.join(xs)\<close>.\<close>

fun str_join :: "string \<Rightarrow> string list \<Rightarrow> string" where
  "str_join sep [] = []"
| "str_join sep [x] = x"
| "str_join sep (x # y # ys) = x @ sep @ str_join sep (y # ys)"

text \<open>\<^verbatim>\<open>str.lower()\<close> on the code points 0..255.\<close>

definition lower_char :: "char \<Rightarrow> char" where
  "lower_char c =
     (let n = (of_char c :: nat) in
      if (65 \<le> n \<and> n \<le> 90) \<or> (192 \<le> n \<and> n \<le> 214) \<or> (216 \<le> n \<and> n \<le> 222)
      then char_of (n + 32) else c)"

definition str_lower :: "string \<Rightarrow> string" where
  "str_lower s = map lower_char s"

text \<open>\<^verbatim>\<open>str.strip()\<close>: white space is removed at both ends.\<close>

definition is_space :: "char \<Rightarrow> bool" where
  "is_space c = ((of_char c :: nat) \<in> {9, 10, 11, 12, 13, 28, 29, 30, 31, 32, 133, 160})"

definition str_strip :: "string \<Rightarrow> string" where
  "str_strip s = rev (dropWhile is_space (rev (dropWhile is_space s)))"

text \<open>\<^verbatim>\<open>str(n)\<close> for an integer.\<close>

definition digit_char :: "nat \<Rightarrow> char" where
  "digit_char n = ''0123456789abcdef'' ! n"

function str_of_nat :: "nat \<Rightarrow> string" where
  "str_of_nat n = (if n < 10 then [digit_char n] else str_of_nat (n div 10) @ [digit_char (n mod 10)])"
  by pat_completeness auto
termination
  by (relation "measure id") auto

definition str_of_int :: "int \<Rightarrow> string" where
  "str_of_int i = (if i < 0 then CHR ''-'' # str_of_nat (nat (- i)) else str_of_nat (nat i))"

text \<open>
  \<^verbatim>\<open>repr(s)\<close> for a string: single quotes unless the string has a single quote and no
  double quote; the quote and the backslash are escaped, tab, newline and return get their
  letter, every other non-printable code point is written \<^verbatim>\<open>\xNN\<close>.
\<close>

definition is_printable :: "char \<Rightarrow> bool" where
  "is_printable c =
     (let n = (of_char c :: nat) in \<not> (n < 32 \<or> (127 \<le> n \<and> n \<le> 160) \<or> n = 173))"

definition repr_char :: "char \<Rightarrow> char \<Rightarrow> string" where
  "repr_char q c =
     (if c = q \<or> c = CHR 0x5C then [CHR 0x5C, c]
      else if c = CHR 0x09 then [CHR 0x5C, CHR ''t'']
      else if c = CHR 0x0A then [CHR 0x5C, CHR ''n'']
      else if c = CHR 0x0D then [CHR 0x5C, CHR ''r'']
      else if is_printable c then [c]
      else [CHR 0x5C, CHR ''x'', digit_char ((of_char c :: nat) div 16),
            digit_char ((of_char c :: nat) mod 16)])"

definition repr_str :: "string \<Rightarrow> string" where
  "repr_str s =
     (let q = (if CHR 0x27 \<in> set s \<and> CHR 0x22 \<notin> set s then CHR 0x22 else CHR 0x27)
      in q # concat (map (repr_char q) s) @ [q])"

text \<open>\<^verbatim>\<open>repr(v)\<close> and \<^verbatim>\<open>str(v)\<close>; they differ on strings only.\<close>

fun py_repr :: "pyval \<Rightarrow> string"
  and py_repr_items :: "pyval list \<Rightarrow> string list"
  and py_repr_entries :: "(string \<times> pyval) list \<Rightarrow> string list" where
  "py_repr (VStr s) = repr_str s"
| "py_repr (VInt i) = str_of_int i"
| "py_repr (VFloat r) = r"
| "py_repr (VBool b) = (if b then ''True'' else ''False'')"
| "py_repr (VList xs) = ''['' @ str_join '', '' (py_repr_items xs) @ '']''"
| "py_repr (VDict d) = ''{'' @ str_join '', '' (py_repr_entries d) @ ''}''"
| "py_repr_items [] = []"
| "py_repr_items (x # xs) = py_repr x # py_repr_items xs"
| "py_repr_entries [] = []"
| "py_repr_entries (kv # d) = (repr_str (fst kv) @ '': '' @ py_repr (snd kv)) # py_repr_entries d"

definition py_str :: "pyval \<Rightarrow> string" where
  "py_str v = (case v of VStr s \<Rightarrow> s | _ \<Rightarrow> py_repr v)"

subsection \<open>Operators on values\<close>

text \<open>
  \<^verbatim>\<open>k in v\<close> for a string \<^verbatim>\<open>k\<close>: a key of a table, an element of an array, a
  substring of a string; any other right operand raises \<^verbatim>\<open>TypeError\<close>.
\<close>

definition py_contains :: "string \<Rightarrow> pyval \<Rightarrow> error + bool" where
  "py_contains k v =
     (case v of
        VStr s \<Rightarrow> Inr (str_in k s)
      | VList xs \<Rightarrow> Inr (VStr k \<in> set xs)
      | VDict d \<Rightarrow> Inr (k \<in> fst ` set d)
      | _ \<Rightarrow> Inl TypeError)"

text \<open>
  \<^verbatim>\<open>v[k]\<close> for a string \<^verbatim>\<open>k\<close>: the entry of a table (\<^verbatim>\<open>KeyError\<close> when it has
  none); everything else raises \<^verbatim>\<open>TypeError\<close>.
\<close>

definition py_getitem :: "pyval \<Rightarrow> string \<Rightarrow> error + pyval" where
  "py_getitem v k =
     (case v of
        VDict d \<Rightarrow> (case map_of d k of Some x \<Rightarrow> Inr x | None \<Rightarrow> Inl KeyError)
      | _ \<Rightarrow> Inl TypeError)"

text \<open>\<^verbatim>\<open>v.get(k, default)\<close>: only a table has the method.\<close>

definition py_get :: "pyval \<Rightarrow> string \<Rightarrow> pyval \<Rightarrow> error + pyval" where
  "py_get v k dflt =
     (case v of
        VDict d \<Rightarrow> Inr (case map_of d k of Some x \<Rightarrow> x | None \<Rightarrow> dflt)
      | _ \<Rightarrow> Inl AttributeError)"

text \<open>\<^verbatim>\<open>for x in v\<close>: the elements of an array, the keys of a table, the characters of a string.\<close>

definition py_iter :: "pyval \<Rightarrow> error + pyval list" where
  "py_iter v =
     (case v of
        VList xs \<Rightarrow> Inr xs
      | VDict d \<Rightarrow> Inr (map (\<lambda>kv. VStr (fst kv)) d)
      | VStr s \<Rightarrow> Inr (map (\<lambda>c. VStr [c]) s)
      | _ \<Rightarrow> Inl TypeError)"

text \<open>The truth value of a value in a condition.\<close>

definition py_truthy :: "pyval \<Rightarrow> bool" where
  "py_truthy v =
     (case v of
        VStr s \<Rightarrow> s \<noteq> []
      | VInt i \<Rightarrow> i \<noteq> 0
      | VFloat r \<Rightarrow> r \<notin> {''0.0'', ''-0.0''}
      | VBool b \<Rightarrow> b
      | VList xs \<Rightarrow> xs \<noteq> []
      | VDict d \<Rightarrow> d \<noteq> [])"

text \<open>\<^verbatim>\<open>v == n\<close> for an integer literal \<^verbatim>\<open>n\<close> other than 0 and 1.\<close>

definition py_eq_int :: "pyval \<Rightarrow> int \<Rightarrow> bool" where
  "py_eq_int v n =
     (case v of
        VInt i \<Rightarrow> i = n
      | VFloat r \<Rightarrow> r = str_of_int n @ ''.0''
      | _ \<Rightarrow> False)"

section \<open>Constants\<close>

definition CURRENT_PYTHON_VERSION :: string where
  "CURRENT_PYTHON_VERSION = ''3.13''"

definition ACCEPTABLE_PYTHON_VERSION :: string where
  "ACCEPTABLE_PYTHON_VERSION = ''3.12''"

definition SCORE_GOOD :: rat where
  "SCORE_GOOD = 75"

definition REQUIRED_KEYWORDS :: "string list" where
  "REQUIRED_KEYWORDS =
     [''python-lib'', ''python-stack'', ''python-app'', ''python-shared'', ''composite-app'']"

section \<open>Data classes\<close>

record ComplianceCheck =
  name :: string
  category :: string
  passed :: bool
  message :: string
  severity :: string

definition mk_check :: "string \<Rightarrow> string \<Rightarrow> bool \<Rightarrow> string \<Rightarrow> string \<Rightarrow> ComplianceCheck" where
  "mk_check n c p m s = \<lparr>name = n, category = c, passed = p, message = m, severity = s\<rparr>"

text \<open>
  The score is a Python float; it is modelled as an exact rational, so the rounding of the
  float division and multiplication is not part of the model.
\<close>

record ComplianceReport =
  repo_identifier :: string
  repo_name :: string
  repo_type :: string
  checks :: "ComplianceCheck list"
  metadata :: "(string \<times> rat) list"

definition new_report :: "string \<Rightarrow> string \<Rightarrow> string \<Rightarrow> ComplianceReport" where
  "new_report ident nm ty =
     \<lparr>repo_identifier = ident, repo_name = nm, repo_type = ty, checks = [], metadata = []\<rparr>"

definition total_checks :: "ComplianceReport \<Rightarrow> nat" where
  "total_checks r = length (checks r)"

definition passed_checks :: "ComplianceReport \<Rightarrow> nat" where
  "passed_checks r = length (filter (\<lambda>c. passed c) (checks r))"

definition failed_checks :: "ComplianceReport \<Rightarrow> nat" where
  "failed_checks r = length (filter (\<lambda>c. \<not> passed c) (checks r))"

text \<open>Python's \<^verbatim>\<open>a / b\<close>: raises on a zero divisor.\<close>

definition py_div :: "rat \<Rightarrow> rat \<Rightarrow> error + rat" where
  "py_div a b = (if b = 0 then Inl ZeroDivisionError else Inr (a / b))"

definition calculate_score :: "ComplianceReport \<Rightarrow> error + rat" where
  "calculate_score r =
     (if total_checks r = 0 then Inr 0
      else ebind (py_div (of_nat (passed_checks r)) (of_nat (total_checks r)))
             (\<lambda>q. Inr (q * 100)))"

definition add_check ::
  "ComplianceReport \<Rightarrow> string \<Rightarrow> string \<Rightarrow> bool \<Rightarrow> string \<Rightarrow> string \<Rightarrow> ComplianceReport" where
  "add_check r n c p m s = r\<lparr>checks := checks r @ [mk_check n c p m s]\<rparr>"


section \<open>Check functions\<close>

definition enot :: "error + bool \<Rightarrow> error + bool" where
  "enot a = ebind a (\<lambda>b. Inr (\<not> b))"

subsection \<open>\<^verbatim>\<open>check_python_version\<close>\<close>

text \<open>
  The first half of the function finds the version: \<^verbatim>\<open>project.requires-python\<close>,
  else \<^verbatim>\<open>tool.poetry.dependencies\<close> with \<^verbatim>\<open>.get('python', '')\<close>, else nothing
  (\<open>None\<close>, the branch that returns the "not specified" result).
\<close>

definition locate_python_version :: "config \<Rightarrow> error + pyval option" where
  "locate_python_version config =
     ebind (eand (py_contains ''project'' (VDict config))
                 (ebind (py_getitem (VDict config) ''project'') (py_contains ''requires-python'')))
       (\<lambda>in_project.
          if in_project then
            ebind (py_getitem (VDict config) ''project'') (\<lambda>project.
            ebind (py_getitem project ''requires-python'') (\<lambda>version. Inr (Some version)))
          else
            ebind (eand (py_contains ''tool'' (VDict config))
                    (eand (ebind (py_getitem (VDict config) ''tool'') (py_contains ''poetry''))
                          (ebind (py_getitem (VDict config) ''tool'') (\<lambda>tool.
                           ebind (py_getitem tool ''poetry'') (py_contains ''dependencies'')))))
              (\<lambda>in_poetry.
                 if in_poetry then
                   ebind (py_getitem (VDict config) ''tool'') (\<lambda>tool.
                   ebind (py_getitem tool ''poetry'') (\<lambda>poetry.
                   ebind (py_getitem poetry ''dependencies'') (\<lambda>deps.
                   ebind (py_get deps ''python'' (VStr [])) (\<lambda>version. Inr (Some version)))))
                 else Inr None))"

text \<open>The second half classifies the version by substring tests, the current version first.\<close>

definition classify_python_version :: "pyval \<Rightarrow> error + ComplianceCheck" where
  "classify_python_version version =
     ebind (py_contains CURRENT_PYTHON_VERSION version) (\<lambda>is_current.
       if is_current then
         Inr (mk_check ''Python Version'' ''Configuration'' True
                (''Uses Python '' @ py_str version @ '' (current standard)'') ''info'')
       else
         ebind (py_contains ACCEPTABLE_PYTHON_VERSION version) (\<lambda>is_acceptable.
           if is_acceptable then
             Inr (mk_check ''Python Version'' ''Configuration'' False
                    (''Uses Python '' @ py_str version @ '' (acceptable but should upgrade to >=''
                       @ CURRENT_PYTHON_VERSION @ '')'') ''warning'')
           else
             Inr (mk_check ''Python Version'' ''Configuration'' False
                    (''Uses Python '' @ py_str version @ '' (should be >=''
                       @ CURRENT_PYTHON_VERSION @ '')'') ''error'')))"

definition check_python_version :: "config \<Rightarrow> error + ComplianceCheck" where
  "check_python_version config =
     (if config = [] then
        Inr (mk_check ''Python Version'' ''Configuration'' False
               ''pyproject.toml not found or invalid'' ''error'')
      else
        ebind (locate_python_version config) (\<lambda>located.
          case located of
            None \<Rightarrow>
              Inr (mk_check ''Python Version'' ''Configuration'' False
                     ''Python version not specified in pyproject.toml'' ''error'')
          | Some version \<Rightarrow> classify_python_version version))"

subsection \<open>\<^verbatim>\<open>check_poetry_configuration\<close>\<close>

text \<open>The test \<^verbatim>\<open>'>=2.1' in v or '>=2.0' in v or '^2' in v\<close>.\<close>

definition poetry_version_ok :: "pyval \<Rightarrow> error + bool" where
  "poetry_version_ok v =
     eor (py_contains ''>=2.1'' v) (eor (py_contains ''>=2.0'' v) (py_contains ''^2'' v))"

definition required_plugins :: "string list" where
  "required_plugins =
     [''poetry-plugin-export'', ''poetry-plugin-shell'', ''ld-poetry-export-group-plugin'']"

text \<open>The loop over the required plugins, appending one result for each.\<close>

fun plugin_loop :: "pyval \<Rightarrow> string list \<Rightarrow> ComplianceCheck list \<Rightarrow> error + ComplianceCheck list" where
  "plugin_loop plugins [] cs = Inr cs"
| "plugin_loop plugins (plugin # rest) cs =
     ebind (py_contains plugin plugins) (\<lambda>present.
       if present then
         plugin_loop plugins rest
           (cs @ [mk_check (''Poetry Plugin: '' @ plugin) ''Configuration'' True
                        ''Required plugin configured'' ''info''])
       else
         plugin_loop plugins rest
           (cs @ [mk_check (''Poetry Plugin: '' @ plugin) ''Configuration'' False
                        ''Missing required plugin'' ''warning'']))"

text \<open>\<^verbatim>\<open>req.lower()\<close>: a method of strings only.\<close>

definition py_lower :: "pyval \<Rightarrow> error + string" where
  "py_lower v = (case v of VStr s \<Rightarrow> Inr (str_lower s) | _ \<Rightarrow> Inl AttributeError)"

text \<open>
  The loop over \<^verbatim>\<open>build-system.requires\<close>; the state is the list of results and the
  flag \<^verbatim>\<open>poetry_found\<close>. The first entry that mentions poetry ends the loop.
\<close>

fun requires_loop ::
  "pyval list \<Rightarrow> ComplianceCheck list \<times> bool \<Rightarrow> error + (ComplianceCheck list \<times> bool)" where
  "requires_loop [] st = Inr st"
| "requires_loop (req # rest) st =
     ebind (py_lower req) (\<lambda>low.
       if str_in ''poetry'' low then
         ebind (poetry_version_ok req) (\<lambda>ok.
           if ok then
             Inr (fst st @ [mk_check ''Poetry Version'' ''Configuration'' True
                              ''Poetry >=2.1 specified'' ''info''], True)
           else
             Inr (fst st @ [mk_check ''Poetry Version'' ''Configuration'' False
                              ''Should specify Poetry >=2.1'' ''warning''], True))
       else requires_loop rest st)"

definition check_poetry_configuration :: "config \<Rightarrow> error + ComplianceCheck list" where
  "check_poetry_configuration config =
     (if config = [] then
        Inr [mk_check ''Poetry Version'' ''Configuration'' False ''No pyproject.toml found'' ''error'']
      else
        ebind (eor (enot (py_contains ''tool'' (VDict config)))
                   (enot (ebind (py_getitem (VDict config) ''tool'') (py_contains ''poetry''))))
          (\<lambda>no_poetry.
        if no_poetry then
          Inr [mk_check ''Poetry Version'' ''Configuration'' False ''Not using Poetry'' ''warning'']
        else
          ebind (py_getitem (VDict config) ''tool'') (\<lambda>tool.
          ebind (py_getitem tool ''poetry'') (\<lambda>poetry_config.
          ebind (py_contains ''requires-plugins'' poetry_config) (\<lambda>has_plugins.
          ebind (if has_plugins then
                   ebind (py_getitem poetry_config ''requires-plugins'') (\<lambda>plugins.
                     plugin_loop plugins required_plugins [])
                 else Inr [])
            (\<lambda>checks1.
          ebind (py_contains ''requires-poetry'' poetry_config) (\<lambda>has_requires.
          ebind (if has_requires then
                   ebind (py_getitem poetry_config ''requires-poetry'') (\<lambda>version.
                   ebind (poetry_version_ok version) (\<lambda>ok.
                     if ok then
                       Inr (checks1 @ [mk_check ''Poetry Version'' ''Configuration'' True
                                         (''Poetry '' @ py_str version @ '' specified'') ''info''], True)
                     else
                       Inr (checks1 @ [mk_check ''Poetry Version'' ''Configuration'' False
                                         ''Should specify Poetry >=2.1'' ''warning''], True)))
                 else Inr (checks1, False))
            (\<lambda>st2.
          ebind (eand (Inr (\<not> snd st2)) (py_contains ''build-system'' (VDict config)))
            (\<lambda>search_build.
          ebind (if search_build then
                   ebind (py_getitem (VDict config) ''build-system'') (\<lambda>build.
                   ebind (py_get build ''requires'' (VList [])) (\<lambda>requires.
                   ebind (py_iter requires) (\<lambda>reqs. requires_loop reqs st2)))
                 else Inr st2)
            (\<lambda>st3.
          if \<not> snd st3 then
            Inr (fst st3 @ [mk_check ''Poetry Version'' ''Configuration'' False
                              ''Should specify Poetry >=2.1'' ''warning''])
          else Inr (fst st3)))))))))))"

subsection \<open>\<^verbatim>\<open>check_code_quality_tools\<close>\<close>

text \<open>The linter/formatter part: Ruff, else Black, else nothing.\<close>

definition linter_checks :: "pyval \<Rightarrow> error + ComplianceCheck list" where
  "linter_checks tool =
     ebind (py_contains ''ruff'' tool) (\<lambda>has_ruff.
       if has_ruff then
         ebind (py_getitem tool ''ruff'') (\<lambda>ruff_config.
         ebind (py_get ruff_config ''target-version'' (VStr [])) (\<lambda>target.
         ebind (eor (py_contains ''py313'' target) (py_contains ''py312'' target)) (\<lambda>target_ok.
         ebind (eand (py_contains ''line-length'' ruff_config)
                     (ebind (py_getitem ruff_config ''line-length'') (\<lambda>n. Inr (py_eq_int n 120))))
           (\<lambda>line_ok.
         ebind (eand (py_contains ''format'' ruff_config)
                     (ebind (py_getitem ruff_config ''format'') (py_contains ''quote-style'')))
           (\<lambda>quote_ok.
         Inr ([if target_ok then
                 mk_check ''Linter/Formatter'' ''Code Quality'' True
                   (''Ruff configured with target '' @ py_str target) ''info''
               else
                 mk_check ''Linter/Formatter'' ''Code Quality'' False
                   ''Ruff configured but with outdated target version'' ''warning'']
              @ (if line_ok then
                   [mk_check ''Line Length'' ''Code Quality'' True ''Line length set to 120'' ''info'']
                 else [])
              @ (if quote_ok then
                   [mk_check ''Quote Style'' ''Code Quality'' True ''Quote style configured'' ''info'']
                 else [])))))))
       else
         ebind (py_contains ''black'' tool) (\<lambda>has_black.
           if has_black then
             Inr [mk_check ''Linter/Formatter'' ''Code Quality'' False
                    ''Uses Black (should migrate to Ruff)'' ''warning'']
           else
             Inr [mk_check ''Linter/Formatter'' ''Code Quality'' False
                    ''No linter/formatter configured'' ''error'']))"

text \<open>
  The type checker part: Pyright or basedpyright, else mypy, else nothing. (The source also
  sets \<^verbatim>\<open>type_tool\<close>, which it never reads; its test cannot raise once
  \<^verbatim>\<open>tool.get\<close> has succeeded.)
\<close>

definition type_checker_checks :: "pyval \<Rightarrow> error + ComplianceCheck list" where
  "type_checker_checks tool =
     ebind (eor (py_contains ''pyright'' tool) (py_contains ''basedpyright'' tool)) (\<lambda>has_pyright.
       if has_pyright then
         ebind (py_get tool ''basedpyright'' (VDict [])) (\<lambda>based.
         ebind (py_get tool ''pyright'' based) (\<lambda>pyright_tool.
         ebind (py_get pyright_tool ''pythonVersion'' (VStr [])) (\<lambda>py_version.
         ebind (py_contains CURRENT_PYTHON_VERSION py_version) (\<lambda>is_current.
           if is_current then
             Inr [mk_check ''Type Checker'' ''Code Quality'' True
                    (''Pyright configured for Python '' @ py_str py_version) ''info'']
           else
             Inr [mk_check ''Type Checker'' ''Code Quality'' False
                    (''Pyright not configured for Python '' @ CURRENT_PYTHON_VERSION) ''warning'']))))
       else
         ebind (py_contains ''mypy'' tool) (\<lambda>has_mypy.
           if has_mypy then
             Inr [mk_check ''Type Checker'' ''Code Quality'' False
                    ''Uses mypy (consider pyright)'' ''warning'']
           else
             Inr [mk_check ''Type Checker'' ''Code Quality'' False
                    ''Pyright not configured'' ''warning'']))"

definition check_code_quality_tools :: "config \<Rightarrow> error + ComplianceCheck list" where
  "check_code_quality_tools config =
     (if config = [] then
        Inr [mk_check ''Linter/Formatter'' ''Code Quality'' False ''No configuration found'' ''error'',
             mk_check ''Type Checker'' ''Code Quality'' False ''No configuration found'' ''error'']
      else
        ebind (py_get (VDict config) ''tool'' (VDict [])) (\<lambda>tool.
        ebind (linter_checks tool) (\<lambda>checks1.
        ebind (type_checker_checks tool) (\<lambda>checks2.
        Inr (checks1 @ checks2)))))"

subsection \<open>\<^verbatim>\<open>check_testing_configuration\<close>\<close>

definition check_testing_configuration :: "config \<Rightarrow> error + ComplianceCheck list" where
  "check_testing_configuration config =
     (if config = [] then
        Inr [mk_check ''Test Framework'' ''Testing'' False ''No configuration found'' ''error'']
      else
        ebind (py_get (VDict config) ''tool'' (VDict [])) (\<lambda>tool.
        ebind (py_contains ''pytest'' tool) (\<lambda>has_pytest.
          if has_pytest then
            ebind (py_get tool ''pytest'' (VDict [])) (\<lambda>pytest_config.
            ebind (py_contains ''ini_options'' pytest_config) (\<lambda>has_ini.
            ebind (if has_ini then
                     ebind (py_get pytest_config ''ini_options'' (VDict [])) (\<lambda>ini.
                     ebind (py_get ini ''addopts'' (VStr [])) (\<lambda>opts. Inr (py_str opts)))
                   else Inr [])
              (\<lambda>addopts.
            ebind (eor (py_contains ''coverage'' tool) (Inr (str_in ''--cov'' addopts))) (\<lambda>has_cov.
              if has_cov then
                Inr [mk_check ''Test Framework'' ''Testing'' True ''Pytest configured'' ''info'',
                     mk_check ''Test Coverage'' ''Testing'' True
                       ''Coverage reporting configured'' ''info'']
              else
                Inr [mk_check ''Test Framework'' ''Testing'' True ''Pytest configured'' ''info'',
                     mk_check ''Test Coverage'' ''Testing'' False
                       ''Coverage reporting not configured'' ''warning'']))))
          else
            Inr [mk_check ''Test Framework'' ''Testing'' False ''Pytest not configured'' ''error''])))"

subsection \<open>\<^verbatim>\<open>check_repository_keywords\<close>\<close>

text \<open>
  The keywords the function looks at: those of \<^verbatim>\<open>project\<close> when the manifest has that
  section, else those of \<^verbatim>\<open>tool.poetry\<close>, else none.
\<close>

definition gather_keywords :: "config \<Rightarrow> error + pyval" where
  "gather_keywords config =
     ebind (py_contains ''project'' (VDict config)) (\<lambda>has_project.
       if has_project then
         ebind (py_getitem (VDict config) ''project'') (\<lambda>project.
           py_get project ''keywords'' (VList []))
       else
         ebind (eand (py_contains ''tool'' (VDict config))
                     (ebind (py_getitem (VDict config) ''tool'') (py_contains ''poetry'')))
           (\<lambda>has_poetry.
              if has_poetry then
                ebind (py_getitem (VDict config) ''tool'') (\<lambda>tool.
                ebind (py_getitem tool ''poetry'') (\<lambda>poetry.
                  py_get poetry ''keywords'' (VList [])))
              else Inr (VList [])))"

text \<open>\<^verbatim>\<open>kw in REQUIRED_KEYWORDS\<close>: only a string can equal one of the names.\<close>

definition is_required_keyword :: "pyval \<Rightarrow> bool" where
  "is_required_keyword kw = (case kw of VStr s \<Rightarrow> s \<in> set REQUIRED_KEYWORDS | _ \<Rightarrow> False)"

definition check_repository_keywords :: "config \<Rightarrow> error + ComplianceCheck" where
  "check_repository_keywords config =
     (if config = [] then
        Inr (mk_check ''Repository Keywords'' ''Configuration'' False ''No pyproject.toml found'' ''error'')
      else
        ebind (gather_keywords config) (\<lambda>keywords.
        ebind (py_iter keywords) (\<lambda>kws.
          if list_ex is_required_keyword kws then
            Inr (mk_check ''Repository Keywords'' ''Configuration'' True
                   ''Has required keyword(s)'' ''info'')
          else
            Inr (mk_check ''Repository Keywords'' ''Configuration'' False
                   (''Missing required keyword. Should have one of: ''
                      @ str_join '', '' REQUIRED_KEYWORDS) ''error''))))"

section \<open>Repository type detection\<close>

text \<open>
  The patterns of \<^verbatim>\<open>determine_repository_type\<close> use five regular-expression
  constructs: the anchors \<^verbatim>\<open>^\<close> and \<^verbatim>\<open>$\<close>, a literal character, an optional
  literal character (\<^verbatim>\<open>s?\<close>) and a character class repeated once or more
  (\<^verbatim>\<open>[\w-]+\<close>). A pattern is the list of its items.
\<close>

datatype re_item = Bol | Eol | Lit char | Opt char | Plus "char \<Rightarrow> bool"

text \<open>
  \<^verbatim>\<open>re.match\<close> tries the pattern at the beginning of the string, with backtracking,
  and succeeds as soon as the pattern is used up, whatever follows. The flag says whether
  the position is still the beginning of the string. Without the multi-line flag,
  \<^verbatim>\<open>$\<close> holds at the end of the string and also just before a newline that ends the
  string.
\<close>

fun re_match_here :: "re_item list \<Rightarrow> bool \<Rightarrow> string \<Rightarrow> bool" where
  "re_match_here [] at0 s = True"
| "re_match_here (Bol # r) at0 s = (at0 \<and> re_match_here r at0 s)"
| "re_match_here (Eol # r) at0 s = ((s = [] \<or> s = [CHR 0x0A]) \<and> re_match_here r at0 s)"
| "re_match_here (Lit c # r) at0 s =
     (case s of [] \<Rightarrow> False | x # xs \<Rightarrow> x = c \<and> re_match_here r False xs)"
| "re_match_here (Opt c # r) at0 s =
     ((case s of [] \<Rightarrow> False | x # xs \<Rightarrow> x = c \<and> re_match_here r False xs)
      \<or> re_match_here r at0 s)"
| "re_match_here (Plus p # r) at0 s =
     (case s of [] \<Rightarrow> False
      | x # xs \<Rightarrow> p x \<and> (re_match_here (Plus p # r) False xs \<or> re_match_here r False xs))"

definition re_match :: "re_item list \<Rightarrow> string \<Rightarrow> bool" where
  "re_match pattern s = re_match_here pattern True s"

text \<open>\<^verbatim>\<open>\w\<close> on the code points 0..255: what \<^verbatim>\<open>str.isalnum\<close> accepts, and the underscore.\<close>

definition is_word_char :: "char \<Rightarrow> bool" where
  "is_word_char c =
     (let n = (of_char c :: nat) in
        (48 \<le> n \<and> n \<le> 57) \<or> (65 \<le> n \<and> n \<le> 90) \<or> n = 95 \<or> (97 \<le> n \<and> n \<le> 122)
        \<or> n = 170 \<or> n = 178 \<or> n = 179 \<or> n = 181 \<or> n = 185 \<or> n = 186
        \<or> (188 \<le> n \<and> n \<le> 190) \<or> (192 \<le> n \<and> n \<le> 214) \<or> (216 \<le> n \<and> n \<le> 246)
        \<or> (248 \<le> n \<and> n \<le> 255))"

definition word_or_hyphen :: "char \<Rightarrow> bool" where
  "word_or_hyphen c = (is_word_char c \<or> c = CHR ''-'')"

text \<open>The tail \<^verbatim>\<open>[\w-]+/[\w-]+\<close> that the four patterns share.\<close>

definition owner_name_items :: "re_item list" where
  "owner_name_items = [Plus word_or_hyphen, Lit CHR ''/'', Plus word_or_hyphen]"

definition github_patterns :: "re_item list list" where
  "github_patterns =
     [ Bol # map Lit ''http'' @ [Opt CHR ''s''] @ map Lit ''://github.com/'' @ owner_name_items,
       Bol # map Lit ''git@github.com:'' @ owner_name_items,
       Bol # map Lit ''github.com/'' @ owner_name_items,
       Bol # owner_name_items @ [Eol] ]"

text \<open>The loop over the patterns returns at the first one that matches.\<close>

fun pattern_loop :: "re_item list list \<Rightarrow> string \<Rightarrow> string" where
  "pattern_loop [] s = ''local''"
| "pattern_loop (pattern # rest) s =
     (if re_match pattern s then ''github'' else pattern_loop rest s)"

definition determine_repository_type :: "string \<Rightarrow> string" where
  "determine_repository_type path_or_url = pattern_loop github_patterns path_or_url"

section \<open>Standard checks on a report\<close>

definition add_all :: "ComplianceReport \<Rightarrow> ComplianceCheck list \<Rightarrow> ComplianceReport" where
  "add_all r cs =
     foldl (\<lambda>r c. add_check r (name c) (category c) (passed c) (message c) (severity c)) r cs"

definition run_standard_checks :: "ComplianceReport \<Rightarrow> config \<Rightarrow> error + ComplianceReport" where
  "run_standard_checks report config =
     ebind (check_python_version config) (\<lambda>c1.
     ebind (check_poetry_configuration config) (\<lambda>cs2.
     ebind (check_code_quality_tools config) (\<lambda>cs3.
     ebind (check_testing_configuration config) (\<lambda>cs4.
     ebind (check_repository_keywords config) (\<lambda>c5.
       Inr (add_all (add_all (add_all (add_all (add_all report [c1]) cs2) cs3) cs4) [c5]))))))"

text \<open>
  The SonarCloud result, which both checkers compute in the same way once they know
  whether a Sonar configuration was found.
\<close>

definition sonar_python_version :: "config \<Rightarrow> error + pyval option" where
  "sonar_python_version config =
     ebind (eand (py_contains ''project'' (VDict config))
                 (ebind (py_getitem (VDict config) ''project'') (py_contains ''requires-python'')))
       (\<lambda>in_project.
          if in_project then
            ebind (py_getitem (VDict config) ''project'') (\<lambda>project.
            ebind (py_getitem project ''requires-python'') (\<lambda>v. Inr (Some v)))
          else
            ebind (eand (py_contains ''tool'' (VDict config))
                        (ebind (py_getitem (VDict config) ''tool'') (py_contains ''poetry'')))
              (\<lambda>in_poetry.
                 if in_poetry then
                   ebind (py_getitem (VDict config) ''tool'') (\<lambda>tool.
                   ebind (py_getitem tool ''poetry'') (\<lambda>poetry.
                   ebind (py_get poetry ''dependencies'' (VDict [])) (\<lambda>deps.
                   ebind (py_get deps ''python'' (VStr [])) (\<lambda>v. Inr (Some v)))))
                 else Inr None))"

definition sonar_check :: "ComplianceReport \<Rightarrow> config \<Rightarrow> bool \<Rightarrow> error + ComplianceReport" where
  "sonar_check report config has_sonar =
     (if has_sonar then
        (if config \<noteq> [] then
           ebind (sonar_python_version config) (\<lambda>py_version.
           ebind (case py_version of
                    None \<Rightarrow> Inr False
                  | Some v \<Rightarrow> eand (Inr (py_truthy v)) (py_contains CURRENT_PYTHON_VERSION v))
             (\<lambda>ok.
                if ok then
                  Inr (add_check report ''SonarCloud'' ''Code Quality'' True
                         (''SonarCloud configured for Python '' @ CURRENT_PYTHON_VERSION) ''info'')
                else
                  Inr (add_check report ''SonarCloud'' ''Code Quality'' False
                         (''SonarCloud configured but not for Python '' @ CURRENT_PYTHON_VERSION)
                         ''warning'')))
         else
           Inr (add_check report ''SonarCloud'' ''Code Quality'' True
                  ''SonarCloud configuration found'' ''info''))
      else
        Inr (add_check report ''SonarCloud'' ''Code Quality'' False
               ''SonarCloud not configured'' ''warning''))"

text \<open>\<^verbatim>\<open>config.get('tool', {}).get('poetry')\<close> as a condition.\<close>

definition uses_poetry :: "config \<Rightarrow> error + bool" where
  "uses_poetry config =
     ebind (py_get (VDict config) ''tool'' (VDict [])) (\<lambda>tool.
       case tool of
         VDict d \<Rightarrow> Inr (case map_of d ''poetry'' of None \<Rightarrow> False | Some p \<Rightarrow> py_truthy p)
       | _ \<Rightarrow> Inl AttributeError)"

section \<open>The local checker\<close>

text \<open>
  The file system is a parameter: what \<^verbatim>\<open>Path.resolve\<close>, \<^verbatim>\<open>exists\<close>,
  \<^verbatim>\<open>is_dir\<close>, \<^verbatim>\<open>read_text\<close> (\<open>None\<close> when it raises) and \<^verbatim>\<open>glob\<close> answer.
  Paths are strings. The parser \<^verbatim>\<open>toml.loads\<close> is a parameter too (\<open>None\<close> when it
  raises).
\<close>

record filesystem =
  fs_resolve :: "string \<Rightarrow> string"
  fs_exists :: "string \<Rightarrow> bool"
  fs_is_dir :: "string \<Rightarrow> bool"
  fs_read_text :: "string \<Rightarrow> string option"
  fs_glob :: "string \<Rightarrow> string \<Rightarrow> string list"

datatype io_error = PyError error | OSError

definition lift_error :: "error + 'a \<Rightarrow> io_error + 'a" where
  "lift_error m = (case m of Inl e \<Rightarrow> Inl (PyError e) | Inr x \<Rightarrow> Inr x)"

definition iobind :: "io_error + 'a \<Rightarrow> ('a \<Rightarrow> io_error + 'b) \<Rightarrow> io_error + 'b" where
  "iobind m f = (case m of Inl e \<Rightarrow> Inl e | Inr x \<Rightarrow> f x)"

text \<open>\<^verbatim>\<open>path.name\<close> and \<^verbatim>\<open>path / child\<close>.\<close>

definition path_name :: "string \<Rightarrow> string" where
  "path_name p = rev (takeWhile (\<lambda>c. c \<noteq> CHR ''/'') (rev p))"

definition path_join :: "string \<Rightarrow> string \<Rightarrow> string" where
  "path_join p child = (if p \<noteq> [] \<and> last p = CHR ''/'' then p @ child else p @ ''/'' @ child)"

definition load_config_local :: "filesystem \<Rightarrow> (string \<Rightarrow> config option) \<Rightarrow> string \<Rightarrow> config" where
  "load_config_local fs toml_loads path =
     (let pyproject_path = path_join path ''pyproject.toml'' in
      if \<not> fs_exists fs pyproject_path then []
      else (case fs_read_text fs pyproject_path of
              None \<Rightarrow> []
            | Some raw \<Rightarrow> (case toml_loads raw of None \<Rightarrow> [] | Some config \<Rightarrow> config)))"

text \<open>The loop that reads the workflow files until one mentions Sonar.\<close>

fun sonar_workflow_loop :: "filesystem \<Rightarrow> string list \<Rightarrow> io_error + bool" where
  "sonar_workflow_loop fs [] = Inr False"
| "sonar_workflow_loop fs (wfile # rest) =
     (case fs_read_text fs wfile of
        None \<Rightarrow> Inl OSError
      | Some raw \<Rightarrow>
          (let content = str_lower raw in
           if str_in ''sonarcloud'' content \<or> str_in ''sonar'' content then Inr True
           else sonar_workflow_loop fs rest))"

definition check_additional_files_local ::
  "filesystem \<Rightarrow> ComplianceReport \<Rightarrow> string \<Rightarrow> config \<Rightarrow> io_error + ComplianceReport" where
  "check_additional_files_local fs report path config =
     (let r1 = (if fs_exists fs (path_join path ''README.md'')
                then add_check report ''README.md'' ''Documentation'' True ''README.md present'' ''info''
                else add_check report ''README.md'' ''Documentation'' False ''README.md missing'' ''error'');
          r2 = (if fs_exists fs (path_join path ''SRD.md'')
                then add_check r1 ''SRD.md'' ''Documentation'' True
                       ''System Readiness Document present'' ''info''
                else add_check r1 ''SRD.md'' ''Documentation'' False
                       ''System Readiness Document missing'' ''error'')
      in
      iobind (lift_error (uses_poetry config)) (\<lambda>poetry.
      let r3 = (if poetry then
                  (if fs_exists fs (path_join path ''poetry.lock'')
                   then add_check r2 ''Poetry Lock File'' ''Configuration'' True
                          ''poetry.lock present'' ''info''
                   else add_check r2 ''Poetry Lock File'' ''Configuration'' False
                          ''poetry.lock missing'' ''error'')
                else r2);
          workflows_path = path_join (path_join path ''.github'') ''workflows'';
          workflow_files = fs_glob fs workflows_path ''*.yml'' @ fs_glob fs workflows_path ''*.yaml'';
          r4 = (if fs_exists fs workflows_path then
                  (let r4a = (if fs_exists fs (path_join workflows_path ''PythonManager.yml'')
                              then add_check r3 ''Python Manager Workflow'' ''CI/CD'' True
                                     ''PythonManager.yml workflow present'' ''info''
                              else add_check r3 ''Python Manager Workflow'' ''CI/CD'' False
                                     ''Missing PythonManager.yml workflow'' ''error'')
                   in
                   if list_ex (\<lambda>f. str_in ''ruff'' (str_lower (path_name f))
                                    \<or> str_in ''format'' (str_lower (path_name f))) workflow_files
                   then add_check r4a ''Ruff Formatting Workflow'' ''CI/CD'' True
                          ''Ruff auto-formatting workflow present'' ''info''
                   else add_check r4a ''Ruff Formatting Workflow'' ''CI/CD'' False
                          ''Missing Ruff auto-formatting workflow'' ''warning'')
                else
                  add_check
                    (add_check r3 ''Python Manager Workflow'' ''CI/CD'' False
                       ''No .github/workflows directory'' ''error'')
                    ''Ruff Formatting Workflow'' ''CI/CD'' False
                    ''No .github/workflows directory'' ''warning'');
          r5 = (if fs_exists fs (path_join path ''CLAUDE.md'')
                then add_check r4 ''CLAUDE.md'' ''Documentation'' True
                       ''AI assistant instructions present (optional)'' ''info''
                else r4);
          r6 = (if fs_exists fs (path_join (path_join path ''.ai'') ''README.md'')
                then add_check r5 ''AI Tracking'' ''Documentation'' True
                       ''AI development tracking configured (optional)'' ''info''
                else r5);
          has_sonar = (fs_exists fs (path_join path ''sonar-project.properties'')
                       \<or> fs_exists fs (path_join path ''.sonarcloud.properties''))
      in
      iobind (if fs_exists fs workflows_path then sonar_workflow_loop fs workflow_files
              else Inr False)
        (\<lambda>found. lift_error (sonar_check r6 config (has_sonar \<or> found)))))"

definition check_repository_local ::
  "filesystem \<Rightarrow> (string \<Rightarrow> config option) \<Rightarrow> string \<Rightarrow> io_error + ComplianceReport" where
  "check_repository_local fs toml_loads path_str =
     (let path = fs_resolve fs path_str;
          repo_name = path_name path;
          report = new_report path repo_name ''local''
      in
      if \<not> fs_exists fs path \<or> \<not> fs_is_dir fs path then
        Inr (add_check report ''Repository Access'' ''Infrastructure'' False
               (''Path does not exist or is not a directory: '' @ path) ''error'')
      else
        (let config = load_config_local fs toml_loads path in
         iobind (lift_error (run_standard_checks report config)) (\<lambda>r.
           check_additional_files_local fs r path config)))"

text \<open>
  What \<^verbatim>\<open>main\<close> does with a local target, without \<^verbatim>\<open>--output\<close>: it runs the check,
  computes the score, prints the report, and exits with 0 when the score reaches
  \<^verbatim>\<open>SCORE_GOOD\<close>, with 1 when it does not, and with 2 when an exception was raised.
  The result here is the exit code.
\<close>

definition main_local :: "filesystem \<Rightarrow> (string \<Rightarrow> config option) \<Rightarrow> string \<Rightarrow> nat" where
  "main_local fs toml_loads repository =
     (case check_repository_local fs toml_loads repository of
        Inl e \<Rightarrow> 2
      | Inr report \<Rightarrow>
          (case calculate_score report of
             Inl e \<Rightarrow> 2
           | Inr score \<Rightarrow> (if score \<ge> SCORE_GOOD then 0 else 1)))"

section \<open>The GitHub checker\<close>

text \<open>
  The outcome of \<^verbatim>\<open>subprocess.run(['gh'] + args, check=True, timeout=10)\<close>: it completes
  with exit status 0 and some output, or raises \<^verbatim>\<open>CalledProcessError\<close> (any other
  exit status), \<^verbatim>\<open>TimeoutExpired\<close>, or an \<^verbatim>\<open>OSError\<close> (the program cannot be
  started). The world outside is a function from the arguments to the outcome.
\<close>

datatype proc_result = Completed string | CalledProcessError | TimeoutExpired | NotStarted

type_synonym gh_cli = "string list \<Rightarrow> proc_result"

definition run_gh_command :: "gh_cli \<Rightarrow> string list \<Rightarrow> io_error + string option" where
  "run_gh_command gh args =
     (case gh args of
        Completed out \<Rightarrow> Inr (Some out)
      | CalledProcessError \<Rightarrow> Inr None
      | TimeoutExpired \<Rightarrow> Inr None
      | NotStarted \<Rightarrow> Inl OSError)"

text \<open>\<^verbatim>\<open>s.split(sep)\<close> for a separator of one character, \<^verbatim>\<open>s.strip('/')\<close>,
  and \<^verbatim>\<open>s.replace(old, new)\<close> for a non-empty \<^verbatim>\<open>old\<close>.\<close>

fun str_split :: "char \<Rightarrow> string \<Rightarrow> string list" where
  "str_split sep [] = [[]]"
| "str_split sep (c # cs) =
     (if c = sep then [] # str_split sep cs
      else (case str_split sep cs of [] \<Rightarrow> [[c]] | w # ws \<Rightarrow> (c # w) # ws))"

definition str_strip_char :: "char \<Rightarrow> string \<Rightarrow> string" where
  "str_strip_char x s = rev (dropWhile (\<lambda>c. c = x) (rev (dropWhile (\<lambda>c. c = x) s)))"

function str_replace :: "string \<Rightarrow> string \<Rightarrow> string \<Rightarrow> string" where
  "str_replace old new s =
     (if old = [] \<or> s = [] then s
      else if prefix old s then new @ str_replace old new (drop (length old) s)
      else hd s # str_replace old new (tl s))"
  by pat_completeness auto
termination
  by (relation "measure (\<lambda>(old, new, s). length s)") auto

text \<open>The truth value of an optional string: present and not empty.\<close>

definition str_truthy :: "string option \<Rightarrow> bool" where
  "str_truthy r = (case r of None \<Rightarrow> False | Some s \<Rightarrow> s \<noteq> [])"

definition file_exists :: "gh_cli \<Rightarrow> string \<Rightarrow> string \<Rightarrow> io_error + bool" where
  "file_exists gh repo path =
     iobind (run_gh_command gh [''api'', ''/repos/'' @ repo @ ''/contents/'' @ path, ''--jq'', ''.name''])
       (\<lambda>result. Inr (case result of
                         None \<Rightarrow> False
                       | Some out \<Rightarrow> str_strip out \<notin> set [''null'', []]))"

text \<open>
  \<^verbatim>\<open>_get_file_content\<close>. Decoding (\<^verbatim>\<open>base64.b64decode(...).decode('utf-8')\<close>) is a
  parameter, \<open>None\<close> when it raises; the exception is swallowed, and the content returned
  then is the one already stripped of white space, newlines and blanks.
\<close>

definition get_file_content ::
  "gh_cli \<Rightarrow> (string \<Rightarrow> string option) \<Rightarrow> string \<Rightarrow> string \<Rightarrow> io_error + string option" where
  "get_file_content gh b64decode repo path =
     iobind (run_gh_command gh [''api'', ''/repos/'' @ repo @ ''/contents/'' @ path, ''-q'', ''.content'',
                                ''--header'', ''Accept: application/vnd.github.raw''])
       (\<lambda>content.
          if str_truthy content \<and> str_strip (the content) \<noteq> [] \<and> str_strip (the content) \<noteq> ''null''
          then
            (if \<not> prefix ''{'' (the content) then
               (let stripped = str_replace '' '' [] (str_replace [CHR 0x0A] [] (str_strip (the content)))
                in case b64decode stripped of
                     Some decoded \<Rightarrow> Inr (Some decoded)
                   | None \<Rightarrow> Inr (Some stripped))
             else Inr content)
          else
            iobind (run_gh_command gh [''api'', ''/repos/'' @ repo @ ''/contents/'' @ path,
                                       ''--header'', ''Accept: application/vnd.github.raw''])
              (\<lambda>content2.
                 if str_truthy content2 \<and> str_strip (the content2) \<noteq> [] then Inr content2
                 else Inr None))"

text \<open>
  \<^verbatim>\<open>_get_repo_info\<close>. The parser \<^verbatim>\<open>json.loads\<close> is a parameter; \<open>None\<close> stands
  for a decoding error and for the JSON value \<^verbatim>\<open>null\<close>, which the caller treats alike.
\<close>

definition get_repo_info ::
  "gh_cli \<Rightarrow> (string \<Rightarrow> pyval option) \<Rightarrow> string \<Rightarrow> io_error + pyval option" where
  "get_repo_info gh json_loads repo =
     iobind (run_gh_command gh [''api'', ''/repos/'' @ repo, ''--jq'', ''.''])
       (\<lambda>result. if str_truthy result then Inr (json_loads (the result)) else Inr None)"

definition parse_repo_spec :: "string \<Rightarrow> io_error + string" where
  "parse_repo_spec repo_spec =
     (let s1 = str_replace ''http://'' [] (str_replace ''https://'' [] repo_spec);
          s2 = str_replace ''github.com/'' [] s1;
          s3 = str_replace ''git@github.com:'' [] s2;
          s4 = str_replace ''.git'' [] s3;
          s5 = str_strip_char CHR ''/'' s4
      in
      if CHR ''/'' \<notin> set s5 \<or> length (str_split CHR ''/'' s5) < 2 then Inl (PyError ValueError)
      else (let parts = str_split CHR ''/'' s5 in Inr (parts ! 0 @ ''/'' @ parts ! 1)))"

definition load_config_github ::
  "gh_cli \<Rightarrow> (string \<Rightarrow> string option) \<Rightarrow> (string \<Rightarrow> config option) \<Rightarrow> string \<Rightarrow> io_error + config" where
  "load_config_github gh b64decode toml_loads repo =
     iobind (get_file_content gh b64decode repo ''pyproject.toml'') (\<lambda>content.
       if str_truthy content then
         (case toml_loads (the content) of Some config \<Rightarrow> Inr config | None \<Rightarrow> Inr [])
       else Inr [])"

text \<open>The loop that fetches each listed workflow until one mentions Sonar.\<close>

fun sonar_remote_loop ::
  "gh_cli \<Rightarrow> (string \<Rightarrow> string option) \<Rightarrow> string \<Rightarrow> string list \<Rightarrow> io_error + bool" where
  "sonar_remote_loop gh b64decode repo [] = Inr False"
| "sonar_remote_loop gh b64decode repo (workflow_name # rest) =
     (if workflow_name \<noteq> [] \<and> workflow_name \<noteq> ''null'' then
        iobind (get_file_content gh b64decode repo (''.github/workflows/'' @ workflow_name))
          (\<lambda>workflow_content.
             if str_truthy workflow_content
                \<and> (str_in ''sonarcloud'' (str_lower (the workflow_content))
                   \<or> str_in ''sonar'' (str_lower (the workflow_content)))
             then Inr True
             else sonar_remote_loop gh b64decode repo rest)
      else sonar_remote_loop gh b64decode repo rest)"

definition check_additional_files_github ::
  "gh_cli \<Rightarrow> (string \<Rightarrow> string option) \<Rightarrow> ComplianceReport \<Rightarrow> string \<Rightarrow> config
     \<Rightarrow> io_error + ComplianceReport" where
  "check_additional_files_github gh b64decode report repo config =
     iobind (file_exists gh repo ''README.md'') (\<lambda>has_readme.
     let r1 = (if has_readme
               then add_check report ''README.md'' ''Documentation'' True ''README.md present'' ''info''
               else add_check report ''README.md'' ''Documentation'' False ''README.md missing'' ''error'')
     in
     iobind (file_exists gh repo ''SRD.md'') (\<lambda>has_srd.
     let r2 = (if has_srd
               then add_check r1 ''SRD.md'' ''Documentation'' True
                      ''System Readiness Document present'' ''info''
               else add_check r1 ''SRD.md'' ''Documentation'' False
                      ''System Readiness Document missing'' ''error'')
     in
     iobind (lift_error (uses_poetry config)) (\<lambda>poetry.
     iobind (if poetry then
               iobind (file_exists gh repo ''poetry.lock'') (\<lambda>has_lock.
                 if has_lock
                 then Inr (add_check r2 ''Poetry Lock File'' ''Configuration'' True
                             ''poetry.lock present'' ''info'')
                 else Inr (add_check r2 ''Poetry Lock File'' ''Configuration'' False
                             ''poetry.lock missing'' ''error''))
             else Inr (add_check r2 ''Poetry Lock File'' ''Configuration'' True
                         ''No problems noted'' ''info''))
       (\<lambda>r3.
     iobind (file_exists gh repo ''.github/workflows/PythonManager.yml'') (\<lambda>has_manager.
     let r4 = (if has_manager
               then add_check r3 ''Python Manager Workflow'' ''CI/CD'' True
                      ''PythonManager.yml workflow present'' ''info''
               else add_check r3 ''Python Manager Workflow'' ''CI/CD'' False
                      ''Missing PythonManager.yml workflow'' ''error'')
     in
     iobind (run_gh_command gh [''api'', ''/repos/'' @ repo @ ''/contents/.github/workflows'',
                                ''--jq'', ''.[].name''])
       (\<lambda>workflows.
     let names = (if str_truthy workflows
                  then str_split (CHR 0x0A) (str_strip (the workflows)) else []);
         has_ruff_workflow =
           list_ex (\<lambda>workflow. str_in ''ruff'' (str_lower workflow)
                               \<or> str_in ''format'' (str_lower workflow)) names;
         r5 = (if has_ruff_workflow
               then add_check r4 ''Ruff Formatting Workflow'' ''CI/CD'' True
                      ''Ruff auto-formatting workflow present'' ''info''
               else add_check r4 ''Ruff Formatting Workflow'' ''CI/CD'' False
                      ''Missing Ruff auto-formatting workflow'' ''warning'')
     in
     iobind (iobind (file_exists gh repo ''sonar-project.properties'') (\<lambda>a.
               if a then Inr True else file_exists gh repo ''.sonarcloud.properties''))
       (\<lambda>has_sonar_file.
     iobind (sonar_remote_loop gh b64decode repo names) (\<lambda>found.
       lift_error (sonar_check r5 config (has_sonar_file \<or> found))))))))))"

definition check_repository_topics ::
  "gh_cli \<Rightarrow> (string \<Rightarrow> pyval option) \<Rightarrow> ComplianceReport \<Rightarrow> string \<Rightarrow> io_error + ComplianceReport" where
  "check_repository_topics gh json_loads report repo =
     iobind (get_repo_info gh json_loads repo) (\<lambda>repo_info.
       if (case repo_info of None \<Rightarrow> True | Some info \<Rightarrow> \<not> py_truthy info) then
         Inr (add_check report ''Repository Topics'' ''Configuration'' False
                ''Could not fetch repository information'' ''error'')
       else
         iobind (lift_error (py_get (the repo_info) ''topics'' (VList []))) (\<lambda>topics.
         iobind (lift_error (py_iter topics)) (\<lambda>ts.
           if list_ex is_required_keyword ts then
             Inr (add_check report ''Repository Topics'' ''Configuration'' True
                    ''Has required GitHub topic(s)'' ''info'')
           else
             Inr (add_check report ''Repository Topics'' ''Configuration'' False
                    (''Missing required GitHub topic. Should have one of: ''
                       @ str_join '', '' REQUIRED_KEYWORDS) ''error''))))"

definition check_repository_github ::
  "gh_cli \<Rightarrow> (string \<Rightarrow> string option) \<Rightarrow> (string \<Rightarrow> config option) \<Rightarrow> (string \<Rightarrow> pyval option)
     \<Rightarrow> string \<Rightarrow> io_error + ComplianceReport" where
  "check_repository_github gh b64decode toml_loads json_loads repo_spec =
     iobind (parse_repo_spec repo_spec) (\<lambda>repo.
     let repo_url = ''https://github.com/'' @ repo;
         report = new_report repo_url repo ''github''
     in
     iobind (load_config_github gh b64decode toml_loads repo) (\<lambda>config.
     iobind (lift_error (run_standard_checks report config)) (\<lambda>r1.
     iobind (check_additional_files_github gh b64decode r1 repo config) (\<lambda>r2.
       check_repository_topics gh json_loads r2 repo))))"

section \<open>Notions used to state the properties\<close>

text \<open>The value found by walking down a path of keys through nested tables, if there is one.\<close>

fun lookup_path :: "string list \<Rightarrow> pyval \<Rightarrow> pyval option" where
  "lookup_path [] v = Some v"
| "lookup_path (k # ks) v =
     (case v of
        VDict d \<Rightarrow> (case map_of d k of Some x \<Rightarrow> lookup_path ks x | None \<Rightarrow> None)
      | _ \<Rightarrow> None)"

text \<open>
  Every value met while walking down the path, as far as the keys exist, is a table:
  \<open>tables_along [''tool'', ''poetry''] c\<close> says that \<^verbatim>\<open>tool\<close>, if the manifest has it,
  is a table, and that \<^verbatim>\<open>tool.poetry\<close>, if it is there, is a table too.
\<close>

fun tables_along :: "string list \<Rightarrow> pyval \<Rightarrow> bool" where
  "tables_along [] v = (case v of VDict d \<Rightarrow> True | _ \<Rightarrow> False)"
| "tables_along (k # ks) v =
     (case v of
        VDict d \<Rightarrow> (case map_of d k of Some x \<Rightarrow> tables_along ks x | None \<Rightarrow> True)
      | _ \<Rightarrow> False)"

text \<open>A value that \<^verbatim>\<open>in\<close> accepts on its right: a string, an array or a table.\<close>

definition is_container :: "pyval \<Rightarrow> bool" where
  "is_container v = (case v of VStr s \<Rightarrow> True | VList xs \<Rightarrow> True | VDict d \<Rightarrow> True | _ \<Rightarrow> False)"

definition is_string :: "pyval \<Rightarrow> bool" where
  "is_string v = (case v of VStr s \<Rightarrow> True | _ \<Rightarrow> False)"

text \<open>An array whose elements are all strings.\<close>

definition is_string_array :: "pyval \<Rightarrow> bool" where
  "is_string_array v = (case v of VList xs \<Rightarrow> list_all is_string xs | _ \<Rightarrow> False)"

definition is_array :: "pyval \<Rightarrow> bool" where
  "is_array v = (case v of VList xs \<Rightarrow> True | _ \<Rightarrow> False)"

text \<open>A property of the value at a path that need only hold if the value is there.\<close>

definition where_present :: "(pyval \<Rightarrow> bool) \<Rightarrow> string list \<Rightarrow> config \<Rightarrow> bool" where
  "where_present P path config =
     (case lookup_path path (VDict config) of None \<Rightarrow> True | Some v \<Rightarrow> P v)"

text \<open>
  The manifest has the types that the Poetry rule relies on: \<^verbatim>\<open>tool\<close>,
  \<^verbatim>\<open>tool.poetry\<close> and \<^verbatim>\<open>build-system\<close> are tables, \<^verbatim>\<open>requires-plugins\<close> and
  \<^verbatim>\<open>requires-poetry\<close> are strings, arrays or tables, and
  \<^verbatim>\<open>build-system.requires\<close> is an array of strings, each where present.
\<close>

definition poetry_shape :: "config \<Rightarrow> bool" where
  "poetry_shape config =
     (tables_along [''tool'', ''poetry''] (VDict config)
      \<and> tables_along [''build-system''] (VDict config)
      \<and> where_present is_container [''tool'', ''poetry'', ''requires-plugins''] config
      \<and> where_present is_container [''tool'', ''poetry'', ''requires-poetry''] config
      \<and> where_present is_string_array [''build-system'', ''requires''] config)"

text \<open>The same for the testing rule and for the keyword rule.\<close>

definition testing_shape :: "config \<Rightarrow> bool" where
  "testing_shape config = tables_along [''tool'', ''pytest'', ''ini_options''] (VDict config)"

definition keywords_shape :: "config \<Rightarrow> bool" where
  "keywords_shape config =
     (tables_along [''project''] (VDict config)
      \<and> tables_along [''tool'', ''poetry''] (VDict config)
      \<and> where_present is_array [''project'', ''keywords''] config
      \<and> where_present is_array [''tool'', ''poetry'', ''keywords''] config)"

text \<open>
  The keywords that the keyword rule considers declared: those of \<^verbatim>\<open>project.keywords\<close>
  when the manifest has a \<^verbatim>\<open>project\<close> section, else those of
  \<^verbatim>\<open>tool.poetry.keywords\<close>; the strings among them form the set.
\<close>

definition declared_keywords :: "config \<Rightarrow> string set" where
  "declared_keywords config =
     (case (if map_of config ''project'' \<noteq> None
            then lookup_path [''project'', ''keywords''] (VDict config)
            else lookup_path [''tool'', ''poetry'', ''keywords''] (VDict config)) of
        Some (VList xs) \<Rightarrow> {s. VStr s \<in> set xs}
      | _ \<Rightarrow> {})"

text \<open>The text in which the testing rule looks for the coverage flag.\<close>

definition addopts_text :: "config \<Rightarrow> string" where
  "addopts_text config =
     (case lookup_path [''tool'', ''pytest'', ''ini_options'', ''addopts''] (VDict config) of
        Some v \<Rightarrow> py_str v
      | None \<Rightarrow> [])"

text \<open>A segment \<^verbatim>\<open>OWNER\<close> or \<^verbatim>\<open>NAME\<close>: not empty, word characters and hyphens only.\<close>

definition segment :: "string \<Rightarrow> bool" where
  "segment x = (x \<noteq> [] \<and> list_all word_or_hyphen x)"

text \<open>The string begins with \<^verbatim>\<open>OWNER/NAME\<close>; the string is \<^verbatim>\<open>OWNER/NAME\<close>.\<close>

definition starts_with_owner_name :: "string \<Rightarrow> bool" where
  "starts_with_owner_name s =
     (\<exists>owner nm rest. segment owner \<and> segment nm \<and> s = owner @ ''/'' @ nm @ rest)"

definition is_owner_name :: "string \<Rightarrow> bool" where
  "is_owner_name s = (\<exists>owner nm. segment owner \<and> segment nm \<and> s = owner @ ''/'' @ nm)"

subsection \<open>Concrete inputs\<close>

definition report_two :: ComplianceReport where
  "report_two =
     add_check (add_check (new_report ''test-repo'' ''test'' ''local'')
                  ''Test1'' ''Cat'' True ''Pass'' ''error'')
       ''Test2'' ''Cat'' False ''Fail'' ''error''"

definition config_313 :: config where
  "config_313 = [(''project'', VDict [(''requires-python'', VStr ''>=3.13,<3.14'')])]"

definition config_both_versions :: config where
  "config_both_versions =
     [(''tool'', VDict [(''poetry'', VDict [(''dependencies'',
         VDict [(''python'', VStr ''>=3.12,<3.13.5'')])])])]"

definition config_dependencies_only :: config where
  "config_dependencies_only =
     [(''tool'', VDict [(''poetry'', VDict [(''dependencies'', VDict [(''requests'', VStr ''^2.0'')])])])]"

definition config_empty_tool :: config where
  "config_empty_tool = [(''tool'', VDict [])]"

definition config_poetry_int :: config where
  "config_poetry_int = [(''tool'', VDict [(''poetry'', VDict [(''requires-poetry'', VInt 2)])])]"

definition config_poetry_plugins :: config where
  "config_poetry_plugins =
     [(''tool'', VDict [(''poetry'', VDict [(''requires-plugins'',
         VDict [(''poetry-plugin-shell'', VStr ''>=1.0'')])])]),
      (''build-system'', VDict [(''requires'', VList [VStr ''setuptools'', VStr ''poetry-core>=2.0''])])]"

definition config_pytest_only :: config where
  "config_pytest_only = [(''tool'', VDict [(''pytest'', VDict [])])]"

definition config_pytest_bad_ini :: config where
  "config_pytest_bad_ini = [(''tool'', VDict [(''pytest'', VDict [(''ini_options'', VStr ''-q'')])])]"

definition config_keywords_lib :: config where
  "config_keywords_lib = [(''project'', VDict [(''keywords'', VList [VStr ''python-lib''])])]"

definition config_keywords_int :: config where
  "config_keywords_int = [(''project'', VDict [(''keywords'', VInt 5)])]"

definition config_black_mypy :: config where
  "config_black_mypy = [(''tool'', VDict [(''black'', VDict []), (''mypy'', VDict [])])]"

text \<open>A file system in which nothing exists, and parsers and decoders that always fail.\<close>

definition fs_nothing :: filesystem where
  "fs_nothing =
     \<lparr>fs_resolve = (\<lambda>p. p), fs_exists = (\<lambda>p. False), fs_is_dir = (\<lambda>p. False),
      fs_read_text = (\<lambda>p. None), fs_glob = (\<lambda>d pat. [])\<rparr>"

text \<open>A file system whose only entry is a plain file.\<close>

definition fs_one_file :: filesystem where
  "fs_one_file =
     \<lparr>fs_resolve = (\<lambda>p. p), fs_exists = (\<lambda>p. p = ''/srv/notes.txt''), fs_is_dir = (\<lambda>p. False),
      fs_read_text = (\<lambda>p. if p = ''/srv/notes.txt'' then Some ''notes'' else None),
      fs_glob = (\<lambda>d pat. [])\<rparr>"

definition toml_fails :: "string \<Rightarrow> config option" where
  "toml_fails raw = None"

definition json_fails :: "string \<Rightarrow> pyval option" where
  "json_fails raw = None"

definition b64_fails :: "string \<Rightarrow> string option" where
  "b64_fails raw = None"

text \<open>A \<^verbatim>\<open>gh\<close> that times out on every command.\<close>

definition gh_times_out :: gh_cli where
  "gh_times_out args = TimeoutExpired"

text \<open>
  The results for an empty configuration followed by the results of a remote scan in
  which no query was answered.
\<close>

definition checks_nothing_answered :: "ComplianceCheck list" where
  "checks_nothing_answered =
     [mk_check ''Python Version'' ''Configuration'' False ''pyproject.toml not found or invalid'' ''error'',
      mk_check ''Poetry Version'' ''Configuration'' False ''No pyproject.toml found'' ''error'',
      mk_check ''Linter/Formatter'' ''Code Quality'' False ''No configuration found'' ''error'',
      mk_check ''Type Checker'' ''Code Quality'' False ''No configuration found'' ''error'',
      mk_check ''Test Framework'' ''Testing'' False ''No configuration found'' ''error'',
      mk_check ''Repository Keywords'' ''Configuration'' False ''No pyproject.toml found'' ''error'',
      mk_check ''README.md'' ''Documentation'' False ''README.md missing'' ''error'',
      mk_check ''SRD.md'' ''Documentation'' False ''System Readiness Document missing'' ''error'',
      mk_check ''Poetry Lock File'' ''Configuration'' True ''No problems noted'' ''info'',
      mk_check ''Python Manager Workflow'' ''CI/CD'' False ''Missing PythonManager.yml workflow'' ''error'',
      mk_check ''Ruff Formatting Workflow'' ''CI/CD'' False
        ''Missing Ruff auto-formatting workflow'' ''warning'',
      mk_check ''SonarCloud'' ''Code Quality'' False ''SonarCloud not configured'' ''warning'',
      mk_check ''Repository Topics'' ''Configuration'' False
        ''Could not fetch repository information'' ''error'']"

section \<open>Basic facts\<close>

text \<open>The recursive equations of these two functions would make the simplifier loop.\<close>

declare str_replace.simps [simp del]

declare str_of_nat.simps [simp del]

lemma ebind_Inr [simp]: "ebind (Inr x) f = f x"
  by (simp add: ebind_def)

lemma ebind_Inl [simp]: "ebind (Inl e) f = Inl e"
  by (simp add: ebind_def)

lemma eand_simps [simp]:
  "eand (Inl e) b = Inl e"
  "eand (Inr True) b = b"
  "eand (Inr False) b = Inr False"
  by (simp_all add: eand_def)

lemma eor_simps [simp]:
  "eor (Inl e) b = Inl e"
  "eor (Inr True) b = Inr True"
  "eor (Inr False) b = b"
  by (simp_all add: eor_def)

lemma enot_simps [simp]:
  "enot (Inl e) = Inl e"
  "enot (Inr b) = Inr (\<not> b)"
  by (simp_all add: enot_def)

lemma iobind_simps [simp]:
  "iobind (Inr x) f = f x"
  "iobind (Inl e) f = Inl e"
  by (simp_all add: iobind_def)

lemma lift_error_simps [simp]:
  "lift_error (Inr x) = Inr x"
  "lift_error (Inl e) = Inl (PyError e)"
  by (simp_all add: lift_error_def)

text \<open>The operators on a table.\<close>

lemma py_contains_VDict [simp]: "py_contains k (VDict d) = Inr (map_of d k \<noteq> None)"
  by (simp add: py_contains_def map_of_eq_None_iff)

lemma py_contains_VStr [simp]: "py_contains k (VStr s) = Inr (str_in k s)"
  by (simp add: py_contains_def)

lemma py_contains_VList [simp]: "py_contains k (VList xs) = Inr (VStr k \<in> set xs)"
  by (simp add: py_contains_def)

lemma py_getitem_VDict [simp]:
  "py_getitem (VDict d) k = (case map_of d k of Some x \<Rightarrow> Inr x | None \<Rightarrow> Inl KeyError)"
  by (simp add: py_getitem_def)

lemma py_get_VDict [simp]:
  "py_get (VDict d) k dflt = Inr (case map_of d k of Some x \<Rightarrow> x | None \<Rightarrow> dflt)"
  by (simp add: py_get_def)

lemma py_str_VStr [simp]: "py_str (VStr s) = s"
  by (simp add: py_str_def)

lemma str_in_empty [simp]: "str_in (c # cs) [] = False"
  by simp


text \<open>Walking down a path of tables.\<close>

lemma tables_along_dict: "tables_along ks v \<Longrightarrow> \<exists>d. v = VDict d"
  by (cases ks; cases v) simp_all

lemma tables_along_step:
  assumes "tables_along (k # ks) (VDict d)"
  obtains "map_of d k = None"
  | d' where "map_of d k = Some (VDict d')" and "tables_along ks (VDict d')"
proof (cases "map_of d k")
  case None
  then show ?thesis using that by simp
next
  case (Some x)
  with assms have "tables_along ks x" by simp
  with Some show ?thesis using that tables_along_dict by blast
qed

lemma lookup_path_step:
  assumes "lookup_path (k # ks) x = Some v"
  obtains d y where "x = VDict d" and "map_of d k = Some y" and "lookup_path ks y = Some v"
  using assms by (cases x) (auto split: option.splits)

section \<open>The report\<close>



section \<open>The version rule\<close>

lemma locate_python_version_empty: "locate_python_version [] = Inr None"
  by (simp add: locate_python_version_def)

text \<open>Where the version is found, in terms of the manifest.\<close>

lemma locate_python_version_primary:
  assumes "lookup_path [''project'', ''requires-python''] (VDict config) = Some v"
  shows "locate_python_version config = Inr (Some v)"
  using assms
  by (elim lookup_path_step) (simp add: locate_python_version_def)

lemma locate_python_version_secondary:
  assumes "tables_along [''project''] (VDict config)"
    and "lookup_path [''project'', ''requires-python''] (VDict config) = None"
    and "lookup_path [''tool'', ''poetry'', ''dependencies'', ''python''] (VDict config) = Some v"
  shows "locate_python_version config = Inr (Some v)"
  using assms(1,3) apply (elim tables_along_step lookup_path_step)
  using assms(2)
  by (simp_all add: locate_python_version_def split: option.splits)

text \<open>
  C2. When the version that the rule has located is a string containing the current
  version 3.13, the one result is a pass of severity info, whatever else the string
  contains (the acceptable version 3.12 included).
\<close>

theorem current_version_wins:
  assumes "locate_python_version config = Inr (Some (VStr v))"
    and "str_in CURRENT_PYTHON_VERSION v"
  shows "check_python_version config =
           Inr (mk_check ''Python Version'' ''Configuration'' True
                  (''Uses Python '' @ v @ '' (current standard)'') ''info'')"
proof -
  from assms(1) have "config \<noteq> []"
    by (auto simp: locate_python_version_empty)
  then show ?thesis
    using assms
    by (simp add: check_python_version_def classify_python_version_def)
qed

theorem current_version_wins_witness:
  "locate_python_version config_313 = Inr (Some (VStr ''>=3.13,<3.14'')) \<and>
   str_in CURRENT_PYTHON_VERSION ''>=3.13,<3.14'' \<and>
   check_python_version config_313 =
     Inr (mk_check ''Python Version'' ''Configuration'' True
            ''Uses Python >=3.13,<3.14 (current standard)'' ''info'')"
proof -
  have l: "locate_python_version config_313 = Inr (Some (VStr ''>=3.13,<3.14''))"
    by (simp add: config_313_def locate_python_version_def)
  have s: "str_in CURRENT_PYTHON_VERSION ''>=3.13,<3.14''"
    by (simp add: CURRENT_PYTHON_VERSION_def)
  show ?thesis using current_version_wins [OF l s] l s by simp
qed

text \<open>A version string that contains both 3.12 and 3.13, found in the Poetry section.\<close>

lemma both_versions_example:
  "str_in ACCEPTABLE_PYTHON_VERSION ''>=3.12,<3.13.5'' \<and>
   check_python_version config_both_versions =
     Inr (mk_check ''Python Version'' ''Configuration'' True
            ''Uses Python >=3.12,<3.13.5 (current standard)'' ''info'')"
  by (simp add: config_both_versions_def check_python_version_def locate_python_version_def
        classify_python_version_def CURRENT_PYTHON_VERSION_def ACCEPTABLE_PYTHON_VERSION_def)

text \<open>
  C5, as stated, fails on the empty configuration: neither place holds a version, and the
  result is a failure of severity error, but its message says that the manifest was not
  found, not that the version is not specified.
\<close>

theorem not_specified_message_counterexample:
  "lookup_path [''project'', ''requires-python''] (VDict []) = None \<and>
   lookup_path [''tool'', ''poetry'', ''dependencies'', ''python''] (VDict []) = None \<and>
   check_python_version [] =
     Inr (mk_check ''Python Version'' ''Configuration'' False
            ''pyproject.toml not found or invalid'' ''error'') \<and>
   \<not> str_in ''not specified'' ''pyproject.toml not found or invalid''"
  by (simp add: check_python_version_def)

text \<open>
  C5, amended. When neither place holds a version, and the sections on the way to them are
  tables, the one result is a failure of severity error. Its message is the "not
  specified" one when the configuration is not empty and has no
  \<^verbatim>\<open>tool.poetry.dependencies\<close> table, and the "not found" one when the configuration
  is empty.
\<close>

theorem no_version_fails:
  assumes "lookup_path [''project'', ''requires-python''] (VDict config) = None"
    and "lookup_path [''tool'', ''poetry'', ''dependencies'', ''python''] (VDict config) = None"
    and "tables_along [''project''] (VDict config)"
    and "tables_along [''tool'', ''poetry'', ''dependencies''] (VDict config)"
  shows "\<exists>c. check_python_version config = Inr c \<and>
             name c = ''Python Version'' \<and> \<not> passed c \<and> severity c = ''error'' \<and>
             (config = [] \<longrightarrow> message c = ''pyproject.toml not found or invalid'') \<and>
             (config \<noteq> [] \<and> lookup_path [''tool'', ''poetry'', ''dependencies''] (VDict config) = None
                \<longrightarrow> message c = ''Python version not specified in pyproject.toml'')"
  using assms(3,4) apply (elim tables_along_step)
  using assms(1,2)
  by (simp_all add: check_python_version_def locate_python_version_def classify_python_version_def
        CURRENT_PYTHON_VERSION_def ACCEPTABLE_PYTHON_VERSION_def mk_check_def
        split: option.splits)

theorem no_version_fails_witness:
  "lookup_path [''project'', ''requires-python''] (VDict config_empty_tool) = None \<and>
   lookup_path [''tool'', ''poetry'', ''dependencies'', ''python''] (VDict config_empty_tool) = None \<and>
   tables_along [''project''] (VDict config_empty_tool) \<and>
   tables_along [''tool'', ''poetry'', ''dependencies''] (VDict config_empty_tool) \<and>
   config_empty_tool \<noteq> [] \<and>
   lookup_path [''tool'', ''poetry'', ''dependencies''] (VDict config_empty_tool) = None \<and>
   check_python_version config_empty_tool =
     Inr (mk_check ''Python Version'' ''Configuration'' False
            ''Python version not specified in pyproject.toml'' ''error'')"
proof -
  have h1: "lookup_path [''project'', ''requires-python''] (VDict config_empty_tool) = None"
    and h2: "lookup_path [''tool'', ''poetry'', ''dependencies'', ''python'']
               (VDict config_empty_tool) = None"
    and h3: "tables_along [''project''] (VDict config_empty_tool)"
    and h4: "tables_along [''tool'', ''poetry'', ''dependencies''] (VDict config_empty_tool)"
    and h5: "config_empty_tool \<noteq> []"
    and h6: "lookup_path [''tool'', ''poetry'', ''dependencies''] (VDict config_empty_tool) = None"
    by (simp_all add: config_empty_tool_def)
  from no_version_fails [OF h1 h2 h3 h4] h5 h6
  obtain c where c: "check_python_version config_empty_tool = Inr c"
    and m: "message c = ''Python version not specified in pyproject.toml''"
    by auto
  have "check_python_version config_empty_tool =
          Inr (mk_check ''Python Version'' ''Configuration'' False (message c) ''error'')"
    using c m
    by (simp add: config_empty_tool_def check_python_version_def locate_python_version_def)
  with m h1 h2 h3 h4 h5 h6 show ?thesis by simp
qed

text \<open>
  With a dependency table that has no \<^verbatim>\<open>python\<close> entry the default \<^verbatim>\<open>''\<close> is
  classified like an outdated version: the result is again a failure of severity error,
  with the message of that branch.
\<close>

lemma dependencies_without_python_example:
  "check_python_version config_dependencies_only =
     Inr (mk_check ''Python Version'' ''Configuration'' False
            ''Uses Python  (should be >=3.13)'' ''error'')"
  by (simp add: config_dependencies_only_def check_python_version_def locate_python_version_def
        classify_python_version_def CURRENT_PYTHON_VERSION_def ACCEPTABLE_PYTHON_VERSION_def)

section \<open>The code-quality rule\<close>

text \<open>The two evaluations when the modern tool is not configured.\<close>

lemma linter_legacy:
  assumes "map_of t ''ruff'' = None"
  shows "linter_checks (VDict t) =
           Inr [if map_of t ''black'' \<noteq> None
                then mk_check ''Linter/Formatter'' ''Code Quality'' False
                       ''Uses Black (should migrate to Ruff)'' ''warning''
                else mk_check ''Linter/Formatter'' ''Code Quality'' False
                       ''No linter/formatter configured'' ''error'']"
  using assms by (simp add: linter_checks_def)

lemma type_checker_legacy:
  assumes "map_of t ''pyright'' = None" and "map_of t ''basedpyright'' = None"
  shows "type_checker_checks (VDict t) =
           Inr [if map_of t ''mypy'' \<noteq> None
                then mk_check ''Type Checker'' ''Code Quality'' False
                       ''Uses mypy (consider pyright)'' ''warning''
                else mk_check ''Type Checker'' ''Code Quality'' False
                       ''Pyright not configured'' ''warning'']"
  using assms by (simp add: type_checker_checks_def)





section \<open>The testing rule\<close>

text \<open>
  C6, amended. For a non-empty configuration in which \<^verbatim>\<open>tool\<close>, \<^verbatim>\<open>tool.pytest\<close>
  and \<^verbatim>\<open>tool.pytest.ini_options\<close>, where present, are tables: without a pytest section
  the rule returns one failure of severity error and no coverage result; with it, a passing
  framework result and one coverage result, which passes exactly when \<^verbatim>\<open>tool\<close> has a
  coverage section or \<^verbatim>\<open>--cov\<close> occurs in the text of \<^verbatim>\<open>addopts\<close>, and is a
  failure of severity warning otherwise.
\<close>

theorem testing_rule:
  assumes "config \<noteq> []" and "testing_shape config"
  shows "(lookup_path [''tool'', ''pytest''] (VDict config) = None \<longrightarrow>
            check_testing_configuration config =
              Inr [mk_check ''Test Framework'' ''Testing'' False ''Pytest not configured'' ''error'']) \<and>
         (lookup_path [''tool'', ''pytest''] (VDict config) \<noteq> None \<longrightarrow>
            check_testing_configuration config =
              Inr [mk_check ''Test Framework'' ''Testing'' True ''Pytest configured'' ''info'',
                   if lookup_path [''tool'', ''coverage''] (VDict config) \<noteq> None
                      \<or> str_in ''--cov'' (addopts_text config)
                   then mk_check ''Test Coverage'' ''Testing'' True
                          ''Coverage reporting configured'' ''info''
                   else mk_check ''Test Coverage'' ''Testing'' False
                          ''Coverage reporting not configured'' ''warning''])"
  using assms(2) unfolding testing_shape_def
  apply (elim tables_along_step)
  using assms(1)
  by (simp_all add: check_testing_configuration_def addopts_text_def split: option.splits)

text \<open>
  C6, as stated, fails when \<^verbatim>\<open>ini_options\<close> is not a table: the pytest section is
  present, and the rule raises instead of returning two results.
\<close>

theorem testing_rule_counterexample:
  "config_pytest_bad_ini \<noteq> [] \<and>
   lookup_path [''tool'', ''pytest''] (VDict config_pytest_bad_ini) \<noteq> None \<and>
   check_testing_configuration config_pytest_bad_ini = Inl AttributeError"
  by (simp add: config_pytest_bad_ini_def check_testing_configuration_def py_get_def)

theorem testing_rule_witness:
  "config_pytest_only \<noteq> [] \<and> testing_shape config_pytest_only \<and>
   lookup_path [''tool'', ''pytest''] (VDict config_pytest_only) \<noteq> None \<and>
   check_testing_configuration config_pytest_only =
     Inr [mk_check ''Test Framework'' ''Testing'' True ''Pytest configured'' ''info'',
          mk_check ''Test Coverage'' ''Testing'' False ''Coverage reporting not configured'' ''warning''] \<and>
   config_empty_tool \<noteq> [] \<and> testing_shape config_empty_tool \<and>
   lookup_path [''tool'', ''pytest''] (VDict config_empty_tool) = None \<and>
   check_testing_configuration config_empty_tool =
     Inr [mk_check ''Test Framework'' ''Testing'' False ''Pytest not configured'' ''error'']"
proof -
  have a1: "config_pytest_only \<noteq> []" and a2: "testing_shape config_pytest_only"
    and a3: "lookup_path [''tool'', ''pytest''] (VDict config_pytest_only) \<noteq> None"
    and a4: "lookup_path [''tool'', ''coverage''] (VDict config_pytest_only) = None"
    and a5: "addopts_text config_pytest_only = []"
    by (simp_all add: config_pytest_only_def testing_shape_def addopts_text_def)
  have b1: "config_empty_tool \<noteq> []" and b2: "testing_shape config_empty_tool"
    and b3: "lookup_path [''tool'', ''pytest''] (VDict config_empty_tool) = None"
    by (simp_all add: config_empty_tool_def testing_shape_def)
  show ?thesis
    using testing_rule [OF a1 a2] testing_rule [OF b1 b2] a1 a2 a3 a4 a5 b1 b2 b3
    by simp
qed

section \<open>The keyword rule\<close>

lemma required_keyword_iff:
  "list_ex is_required_keyword xs \<longleftrightarrow> {s. VStr s \<in> set xs} \<inter> set REQUIRED_KEYWORDS \<noteq> {}"
proof
  assume "list_ex is_required_keyword xs"
  then obtain x where "x \<in> set xs" and "is_required_keyword x"
    by (auto simp: list_ex_iff)
  from \<open>is_required_keyword x\<close> obtain s where "x = VStr s" and "s \<in> set REQUIRED_KEYWORDS"
    by (cases x) (simp_all add: is_required_keyword_def)
  with \<open>x \<in> set xs\<close> show "{s. VStr s \<in> set xs} \<inter> set REQUIRED_KEYWORDS \<noteq> {}"
    by blast
next
  assume "{s. VStr s \<in> set xs} \<inter> set REQUIRED_KEYWORDS \<noteq> {}"
  then obtain s where "VStr s \<in> set xs" and "s \<in> set REQUIRED_KEYWORDS" by blast
  then show "list_ex is_required_keyword xs"
    by (auto simp: list_ex_iff is_required_keyword_def intro!: bexI [of _ "VStr s"])
qed

lemma is_array_elim:
  assumes "is_array v" obtains xs where "v = VList xs"
  using assms by (cases v) (simp_all add: is_array_def)

lemma py_iter_VList [simp]: "py_iter (VList xs) = Inr xs"
  by (simp add: py_iter_def)

text \<open>What the rule gathers, under the shape.\<close>

lemma gather_keywords_shape:
  assumes "keywords_shape config"
  shows "\<exists>xs. gather_keywords config = Inr (VList xs) \<and>
              declared_keywords config = {s. VStr s \<in> set xs}"
proof -
  from assms have p: "tables_along [''project''] (VDict config)"
    and t: "tables_along [''tool'', ''poetry''] (VDict config)"
    and kp: "where_present is_array [''project'', ''keywords''] config"
    and kt: "where_present is_array [''tool'', ''poetry'', ''keywords''] config"
    by (simp_all add: keywords_shape_def)
  from p show ?thesis
  proof (cases rule: tables_along_step)
    case 1
    from t show ?thesis
      using 1 kt
      by (elim tables_along_step)
         (auto simp: gather_keywords_def declared_keywords_def where_present_def
            elim!: is_array_elim split: option.splits)
  next
    case (2 d)
    then show ?thesis
      using kp
      by (auto simp: gather_keywords_def declared_keywords_def where_present_def
            elim!: is_array_elim split: option.splits)
  qed
qed





section \<open>The Poetry rule\<close>

lemma is_container_contains:
  assumes "is_container v"
  shows "\<exists>b. py_contains k v = Inr b"
  using assms by (cases v) (simp_all add: is_container_def)

lemma is_container_version_ok:
  assumes "is_container v"
  shows "\<exists>b. poetry_version_ok v = Inr b"
  using assms by (cases v) (auto simp: is_container_def poetry_version_ok_def eor_def)

lemma plugin_loop_result:
  assumes "is_container plugins"
  shows "\<exists>new. plugin_loop plugins ps cs = Inr (cs @ new) \<and>
               (\<forall>c \<in> set new. \<exists>p \<in> set ps. name c = ''Poetry Plugin: '' @ p)"
proof (induction ps arbitrary: cs)
  case Nil
  then show ?case by simp
next
  case (Cons p ps)
  from is_container_contains [OF assms] obtain b where b: "py_contains p plugins = Inr b"
    by blast
  define c where "c = (if b then mk_check (''Poetry Plugin: '' @ p) ''Configuration'' True
                               ''Required plugin configured'' ''info''
                       else mk_check (''Poetry Plugin: '' @ p) ''Configuration'' False
                               ''Missing required plugin'' ''warning'')"
  have n: "name c = ''Poetry Plugin: '' @ p"
    by (simp add: c_def mk_check_def)
  from Cons.IH [of "cs @ [c]"] obtain new
    where new: "plugin_loop plugins ps (cs @ [c]) = Inr ((cs @ [c]) @ new)"
      and names: "\<forall>c \<in> set new. \<exists>p \<in> set ps. name c = ''Poetry Plugin: '' @ p"
    by blast
  have "plugin_loop plugins (p # ps) cs = Inr (cs @ (c # new))"
    using b new by (cases b) (simp_all add: c_def)
  moreover have "\<forall>x \<in> set (c # new). \<exists>q \<in> set (p # ps). name x = ''Poetry Plugin: '' @ q"
    using n names by auto
  ultimately show ?case by blast
qed

lemma requires_loop_result:
  assumes "list_all is_string reqs"
  shows "requires_loop reqs (cs, False) = Inr (cs, False) \<or>
         (\<exists>c. requires_loop reqs (cs, False) = Inr (cs @ [c], True) \<and> name c = ''Poetry Version'')"
  using assms
proof (induction reqs)
  case Nil
  then show ?case by simp
next
  case (Cons req reqs)
  then obtain s where s: "req = VStr s" by (cases req) (simp_all add: is_string_def)
  from Cons have ih: "requires_loop reqs (cs, False) = Inr (cs, False) \<or>
         (\<exists>c. requires_loop reqs (cs, False) = Inr (cs @ [c], True) \<and> name c = ''Poetry Version'')"
    by simp
  show ?case
  proof (cases "str_in ''poetry'' (str_lower s)")
    case True
    then show ?thesis
      using s by (simp add: py_lower_def poetry_version_ok_def eor_def mk_check_def)
  next
    case False
    then show ?thesis using s ih by (simp add: py_lower_def)
  qed
qed


lemma is_string_array_elim:
  assumes "is_string_array v"
  obtains xs where "v = VList xs" and "list_all is_string xs"
  using assms by (cases v) (simp_all add: is_string_array_def)

text \<open>Per-plugin results followed by one version result form a list as the claim wants it.\<close>

lemma plugins_then_version:
  assumes "\<forall>c \<in> set new. \<exists>p \<in> set required_plugins. name c = ''Poetry Plugin: '' @ p"
    and "name v = ''Poetry Version''"
  shows "new @ [v] \<noteq> [] \<and>
         length (filter (\<lambda>c. name c = ''Poetry Version'') (new @ [v])) = 1 \<and>
         (\<forall>c \<in> set (new @ [v]). name c = ''Poetry Version'' \<or>
            (\<exists>p \<in> set required_plugins. name c = ''Poetry Plugin: '' @ p))"
proof -
  have "\<forall>c \<in> set new. name c \<noteq> ''Poetry Version''"
    using assms(1) by auto
  then have "filter (\<lambda>c. name c = ''Poetry Version'') new = []"
    by (simp add: filter_empty_conv)
  then show ?thesis using assms by auto
qed

text \<open>The stages of the rule once the Poetry section \<open>po\<close> has been found.\<close>

lemma plugins_stage:
  assumes "where_present is_container [''tool'', ''poetry'', ''requires-plugins''] config"
    and "map_of config ''tool'' = Some (VDict t)" and "map_of t ''poetry'' = Some (VDict po)"
  shows "\<exists>new. (if map_of po ''requires-plugins'' \<noteq> None
                 then ebind (py_getitem (VDict po) ''requires-plugins'')
                        (\<lambda>plugins. plugin_loop plugins required_plugins [])
                 else Inr []) = Inr new \<and>
               (\<forall>c \<in> set new. \<exists>p \<in> set required_plugins. name c = ''Poetry Plugin: '' @ p)"
proof (cases "map_of po ''requires-plugins''")
  case None
  then show ?thesis by simp
next
  case (Some pl)
  with assms have "is_container pl" by (simp add: where_present_def)
  from plugin_loop_result [OF this, of required_plugins "[]"] Some show ?thesis by simp
qed

lemma version_stage:
  assumes "where_present is_container [''tool'', ''poetry'', ''requires-poetry''] config"
    and "map_of config ''tool'' = Some (VDict t)" and "map_of t ''poetry'' = Some (VDict po)"
    and "map_of po ''requires-poetry'' = Some version"
  shows "\<exists>c. ebind (poetry_version_ok version) (\<lambda>ok.
                 if ok then
                   Inr (new @ [mk_check ''Poetry Version'' ''Configuration'' True
                                 (''Poetry '' @ py_str version @ '' specified'') ''info''], True)
                 else
                   Inr (new @ [mk_check ''Poetry Version'' ''Configuration'' False
                                 ''Should specify Poetry >=2.1'' ''warning''], True))
              = Inr (new @ [c], True) \<and> name c = ''Poetry Version''"
proof -
  from assms have "is_container version" by (simp add: where_present_def)
  from is_container_version_ok [OF this] obtain b where "poetry_version_ok version = Inr b"
    by blast
  then show ?thesis by (cases b) (simp_all add: mk_check_def)
qed

lemma build_stage:
  assumes "tables_along [''build-system''] (VDict config)"
    and "where_present is_string_array [''build-system'', ''requires''] config"
  shows "\<exists>st. (if map_of config ''build-system'' \<noteq> None
                then ebind (py_getitem (VDict config) ''build-system'') (\<lambda>build.
                     ebind (py_get build ''requires'' (VList [])) (\<lambda>requires.
                     ebind (py_iter requires) (\<lambda>reqs. requires_loop reqs (new, False))))
                else Inr (new, False)) = Inr st \<and>
              (st = (new, False) \<or> (\<exists>c. st = (new @ [c], True) \<and> name c = ''Poetry Version''))"
  using assms(1)
proof (cases rule: tables_along_step)
  case 1
  then show ?thesis by simp
next
  case (2 bs)
  show ?thesis
  proof (cases "map_of bs ''requires''")
    case None
    with 2 show ?thesis by simp
  next
    case (Some r)
    with 2 assms(2) have "is_string_array r" by (simp add: where_present_def)
    then obtain reqs where r: "r = VList reqs" and "list_all is_string reqs"
      by (rule is_string_array_elim)
    from requires_loop_result [OF this(2), of new] 2 Some r show ?thesis by auto
  qed
qed

text \<open>
  C10, amended. For a configuration with the types that the rule relies on
  (\<open>poetry_shape\<close>), the rule returns a non-empty list with exactly one result named
  "Poetry Version"; every other result is a per-plugin result "Poetry Plugin: <name>" for
  one of the three required plugins.
\<close>

theorem poetry_rule:
  assumes "poetry_shape config"
  shows "\<exists>cs. check_poetry_configuration config = Inr cs \<and> cs \<noteq> [] \<and>
              length (filter (\<lambda>c. name c = ''Poetry Version'') cs) = 1 \<and>
              (\<forall>c \<in> set cs. name c = ''Poetry Version'' \<or>
                 (\<exists>p \<in> set required_plugins. name c = ''Poetry Plugin: '' @ p))"
proof -
  from assms have tp: "tables_along [''tool'', ''poetry''] (VDict config)"
    and bs: "tables_along [''build-system''] (VDict config)"
    and wp: "where_present is_container [''tool'', ''poetry'', ''requires-plugins''] config"
    and wv: "where_present is_container [''tool'', ''poetry'', ''requires-poetry''] config"
    and wr: "where_present is_string_array [''build-system'', ''requires''] config"
    by (simp_all add: poetry_shape_def)
  have single: "\<And>v. name v = ''Poetry Version'' \<Longrightarrow>
      [v] \<noteq> [] \<and> length (filter (\<lambda>c. name c = ''Poetry Version'') [v]) = 1 \<and>
      (\<forall>c \<in> set [v]. name c = ''Poetry Version'' \<or>
         (\<exists>p \<in> set required_plugins. name c = ''Poetry Plugin: '' @ p))"
    by simp
  consider (empty) "config = []"
    | (no_tool) "config \<noteq> []" "map_of config ''tool'' = None"
    | (no_poetry) t where "config \<noteq> []" "map_of config ''tool'' = Some (VDict t)"
        "map_of t ''poetry'' = None"
    | (poetry) t po where "config \<noteq> []" "map_of config ''tool'' = Some (VDict t)"
        "map_of t ''poetry'' = Some (VDict po)"
    using tp by (elim tables_along_step) auto
  then show ?thesis
  proof cases
    case empty
    then show ?thesis
      by (simp add: check_poetry_configuration_def mk_check_def)
  next
    case no_tool
    then show ?thesis
      by (simp add: check_poetry_configuration_def mk_check_def)
  next
    case no_poetry
    then show ?thesis
      by (simp add: check_poetry_configuration_def mk_check_def)
  next
    case poetry
    from plugins_stage [OF wp poetry(2,3)] obtain new
      where s1: "(if map_of po ''requires-plugins'' \<noteq> None
                  then ebind (py_getitem (VDict po) ''requires-plugins'')
                         (\<lambda>plugins. plugin_loop plugins required_plugins [])
                  else Inr []) = Inr new"
        and names: "\<forall>c \<in> set new. \<exists>p \<in> set required_plugins. name c = ''Poetry Plugin: '' @ p"
      by blast
    have "\<exists>v. check_poetry_configuration config = Inr (new @ [v]) \<and> name v = ''Poetry Version''"
    proof (cases "map_of po ''requires-poetry''")
      case (Some version)
      from version_stage [OF wv poetry(2,3) Some, of new] obtain c
        where "ebind (poetry_version_ok version) (\<lambda>ok.
                 if ok then
                   Inr (new @ [mk_check ''Poetry Version'' ''Configuration'' True
                                 (''Poetry '' @ py_str version @ '' specified'') ''info''], True)
                 else
                   Inr (new @ [mk_check ''Poetry Version'' ''Configuration'' False
                                 ''Should specify Poetry >=2.1'' ''warning''], True))
               = Inr (new @ [c], True)"
          and "name c = ''Poetry Version''"
        by blast
      then show ?thesis
        using poetry Some s1
        by (simp add: check_poetry_configuration_def)
    next
      case None
      from build_stage [OF bs wr, of new] obtain st
        where s3: "(if map_of config ''build-system'' \<noteq> None
                then ebind (py_getitem (VDict config) ''build-system'') (\<lambda>build.
                     ebind (py_get build ''requires'' (VList [])) (\<lambda>requires.
                     ebind (py_iter requires) (\<lambda>reqs. requires_loop reqs (new, False))))
                else Inr (new, False)) = Inr st"
          and st: "st = (new, False) \<or> (\<exists>c. st = (new @ [c], True) \<and> name c = ''Poetry Version'')"
        by blast
      have "check_poetry_configuration config =
              Inr (if \<not> snd st
                   then fst st @ [mk_check ''Poetry Version'' ''Configuration'' False
                                    ''Should specify Poetry >=2.1'' ''warning'']
                   else fst st)"
        using poetry None s1 s3
        by (simp add: check_poetry_configuration_def)
      with st show ?thesis by (auto simp: mk_check_def)
    qed
    then obtain v where "check_poetry_configuration config = Inr (new @ [v])"
      and "name v = ''Poetry Version''" by blast
    with plugins_then_version [OF names this(2)] show ?thesis by simp
  qed
qed

text \<open>
  C10, as stated, fails when \<^verbatim>\<open>requires-poetry\<close> is a number: the substring test
  raises, and no list is returned.
\<close>

theorem poetry_rule_counterexample:
  "check_poetry_configuration config_poetry_int = Inl TypeError"
  by (simp add: config_poetry_int_def check_poetry_configuration_def poetry_version_ok_def
        py_contains_def)


theorem poetry_rule_witness:
  "poetry_shape config_poetry_plugins \<and>
   check_poetry_configuration config_poetry_plugins =
     Inr [mk_check ''Poetry Plugin: poetry-plugin-export'' ''Configuration'' False
            ''Missing required plugin'' ''warning'',
          mk_check ''Poetry Plugin: poetry-plugin-shell'' ''Configuration'' True
            ''Required plugin configured'' ''info'',
          mk_check ''Poetry Plugin: ld-poetry-export-group-plugin'' ''Configuration'' False
            ''Missing required plugin'' ''warning'',
          mk_check ''Poetry Version'' ''Configuration'' True ''Poetry >=2.1 specified'' ''info'']"
proof -
  have h: "poetry_shape config_poetry_plugins"
    by (simp add: config_poetry_plugins_def poetry_shape_def where_present_def is_container_def
          is_string_array_def is_string_def)
  have e: "check_poetry_configuration config_poetry_plugins =
     Inr [mk_check ''Poetry Plugin: poetry-plugin-export'' ''Configuration'' False
            ''Missing required plugin'' ''warning'',
          mk_check ''Poetry Plugin: poetry-plugin-shell'' ''Configuration'' True
            ''Required plugin configured'' ''info'',
          mk_check ''Poetry Plugin: ld-poetry-export-group-plugin'' ''Configuration'' False
            ''Missing required plugin'' ''warning'',
          mk_check ''Poetry Version'' ''Configuration'' True ''Poetry >=2.1 specified'' ''info'']"
    by (simp add: config_poetry_plugins_def check_poetry_configuration_def required_plugins_def
          py_lower_def str_lower_def lower_char_def poetry_version_ok_def)
  show ?thesis using poetry_rule [OF h] h e by simp
qed


section \<open>Repository type detection\<close>

text \<open>What each construct of a pattern matches.\<close>

lemma re_match_here_lits:
  "re_match_here (map Lit cs @ r) at0 s \<longleftrightarrow>
     (\<exists>rest. s = cs @ rest \<and> re_match_here r (at0 \<and> cs = []) rest)"
proof (induction cs arbitrary: s at0)
  case Nil
  show ?case by simp
next
  case (Cons c cs)
  show ?case
  proof (cases s)
    case Nil
    then show ?thesis by simp
  next
    case (Cons x xs)
    then show ?thesis using Cons.IH [of False xs] by auto
  qed
qed

lemma re_match_here_plus:
  "re_match_here (Plus p # r) at0 s \<longleftrightarrow>
     (\<exists>a rest. a \<noteq> [] \<and> list_all p a \<and> s = a @ rest \<and> re_match_here r False rest)"
proof (induction s arbitrary: at0)
  case Nil
  show ?case by simp
next
  case (Cons x xs)
  show ?case
  proof
    assume "re_match_here (Plus p # r) at0 (x # xs)"
    then have px: "p x" and d: "re_match_here (Plus p # r) False xs \<or> re_match_here r False xs"
      by simp_all
    from d show "\<exists>a rest. a \<noteq> [] \<and> list_all p a \<and> x # xs = a @ rest \<and> re_match_here r False rest"
    proof
      assume "re_match_here (Plus p # r) False xs"
      with Cons.IH [of False] obtain a rest
        where "a \<noteq> []" "list_all p a" "xs = a @ rest" "re_match_here r False rest" by blast
      with px have "x # a \<noteq> [] \<and> list_all p (x # a) \<and> x # xs = (x # a) @ rest
                    \<and> re_match_here r False rest" by simp
      then show ?thesis by blast
    next
      assume "re_match_here r False xs"
      with px have "[x] \<noteq> [] \<and> list_all p [x] \<and> x # xs = [x] @ xs \<and> re_match_here r False xs"
        by simp
      then show ?thesis by blast
    qed
  next
    assume "\<exists>a rest. a \<noteq> [] \<and> list_all p a \<and> x # xs = a @ rest \<and> re_match_here r False rest"
    then obtain a rest where a: "a \<noteq> []" "list_all p a" "x # xs = a @ rest"
      and m: "re_match_here r False rest" by blast
    then obtain a' where a': "a = x # a'" by (cases a) auto
    with a have px: "p x" and all: "list_all p a'" and xs: "xs = a' @ rest" by simp_all
    show "re_match_here (Plus p # r) at0 (x # xs)"
    proof (cases "a' = []")
      case True
      with xs m px show ?thesis by simp
    next
      case False
      with all xs m have "re_match_here (Plus p # r) False xs"
        using Cons.IH [of False] by blast
      with px show ?thesis by simp
    qed
  qed
qed

lemma re_match_here_lit:
  "re_match_here (Lit c # r) at0 s \<longleftrightarrow> (\<exists>rest. s = c # rest \<and> re_match_here r False rest)"
  by (cases s) auto

lemma re_match_here_eol:
  "re_match_here [Eol] at0 s \<longleftrightarrow> s = [] \<or> s = [CHR 0x0A]"
  by simp

lemma owner_name_prefix:
  "re_match_here owner_name_items b s \<longleftrightarrow> starts_with_owner_name s"
proof
  assume "re_match_here owner_name_items b s"
  then obtain a rest where a: "a \<noteq> []" "list_all word_or_hyphen a" and s: "s = a @ rest"
    and r: "re_match_here [Lit CHR ''/'', Plus word_or_hyphen] False rest"
    unfolding owner_name_items_def re_match_here_plus by blast
  from r obtain rest' where rest: "rest = CHR ''/'' # rest'"
    and r': "re_match_here [Plus word_or_hyphen] False rest'"
    unfolding re_match_here_lit by blast
  from r' obtain n rest'' where n: "n \<noteq> []" "list_all word_or_hyphen n" and "rest' = n @ rest''"
    unfolding re_match_here_plus by blast
  with s rest have "s = a @ ''/'' @ n @ rest''" by simp
  with a n show "starts_with_owner_name s"
    unfolding starts_with_owner_name_def segment_def by blast
next
  assume "starts_with_owner_name s"
  then obtain a n rest where a: "a \<noteq> []" "list_all word_or_hyphen a"
    and n: "n \<noteq> []" "list_all word_or_hyphen n" and s: "s = a @ ''/'' @ n @ rest"
    unfolding starts_with_owner_name_def segment_def by blast
  from n have "re_match_here [Plus word_or_hyphen] False (n @ rest)"
    unfolding re_match_here_plus by auto
  then have "re_match_here [Lit CHR ''/'', Plus word_or_hyphen] False (''/'' @ n @ rest)"
    unfolding re_match_here_lit by simp
  with a s show "re_match_here owner_name_items b s"
    unfolding owner_name_items_def re_match_here_plus by blast
qed

lemma owner_name_exact:
  "re_match_here (owner_name_items @ [Eol]) b s \<longleftrightarrow>
     is_owner_name s \<or> (\<exists>t. s = t @ [CHR 0x0A] \<and> is_owner_name t)"
proof
  assume "re_match_here (owner_name_items @ [Eol]) b s"
  then have "re_match_here (Plus word_or_hyphen # [Lit CHR ''/'', Plus word_or_hyphen, Eol]) b s"
    by (simp only: owner_name_items_def append.simps)
  then obtain a rest where a: "a \<noteq> []" "list_all word_or_hyphen a" and s: "s = a @ rest"
    and r: "re_match_here [Lit CHR ''/'', Plus word_or_hyphen, Eol] False rest"
    unfolding re_match_here_plus by blast
  from r obtain rest' where rest: "rest = CHR ''/'' # rest'"
    and r': "re_match_here [Plus word_or_hyphen, Eol] False rest'"
    unfolding re_match_here_lit by blast
  from r' obtain n rest'' where n: "n \<noteq> []" "list_all word_or_hyphen n"
    and rest': "rest' = n @ rest''" and e: "re_match_here [Eol] False rest''"
    unfolding re_match_here_plus by blast
  from e have "rest'' = [] \<or> rest'' = [CHR 0x0A]" by (simp only: re_match_here_eol)
  then show "is_owner_name s \<or> (\<exists>t. s = t @ [CHR 0x0A] \<and> is_owner_name t)"
  proof
    assume "rest'' = []"
    with s rest rest' have "s = a @ ''/'' @ n" by simp
    with a n have "is_owner_name s" unfolding is_owner_name_def segment_def by blast
    then show ?thesis ..
  next
    assume "rest'' = [CHR 0x0A]"
    with s rest rest' have "s = (a @ ''/'' @ n) @ [CHR 0x0A]" by simp
    moreover from a n have "is_owner_name (a @ ''/'' @ n)"
      unfolding is_owner_name_def segment_def by blast
    ultimately show ?thesis by blast
  qed
next
  assume "is_owner_name s \<or> (\<exists>t. s = t @ [CHR 0x0A] \<and> is_owner_name t)"
  then obtain a n e where a: "a \<noteq> []" "list_all word_or_hyphen a"
    and n: "n \<noteq> []" "list_all word_or_hyphen n" and s: "s = a @ ''/'' @ n @ e"
    and e: "e = [] \<or> e = [CHR 0x0A]"
    unfolding is_owner_name_def segment_def by auto
  from e have "re_match_here [Eol] False e" by (simp only: re_match_here_eol)
  with n have "re_match_here [Plus word_or_hyphen, Eol] False (n @ e)"
    unfolding re_match_here_plus by blast
  then have "re_match_here [Lit CHR ''/'', Plus word_or_hyphen, Eol] False (''/'' @ n @ e)"
    unfolding re_match_here_lit by simp
  with a s have "re_match_here (Plus word_or_hyphen # [Lit CHR ''/'', Plus word_or_hyphen, Eol]) b s"
    unfolding re_match_here_plus by blast
  then show "re_match_here (owner_name_items @ [Eol]) b s"
    by (simp only: owner_name_items_def append.simps)
qed


lemma re_match_here_opt:
  "re_match_here (Opt c # r) at0 s \<longleftrightarrow>
     (\<exists>rest. s = c # rest \<and> re_match_here r False rest) \<or> re_match_here r at0 s"
  by (cases s) auto

lemma re_match_here_bol: "re_match_here (Bol # r) True s \<longleftrightarrow> re_match_here r True s"
  by simp

lemma literal_prefix:
  "re_match_here (map Lit cs @ owner_name_items) b s \<longleftrightarrow>
     (\<exists>t. s = cs @ t \<and> starts_with_owner_name t)"
  unfolding re_match_here_lits owner_name_prefix ..

lemma https_pattern:
  "re_match (Bol # map Lit ''http'' @ [Opt CHR ''s''] @ map Lit ''://github.com/'' @ owner_name_items) s
     \<longleftrightarrow> (\<exists>t. (s = ''https://github.com/'' @ t \<or> s = ''http://github.com/'' @ t)
               \<and> starts_with_owner_name t)"
proof -
  have "re_match (Bol # map Lit ''http'' @ [Opt CHR ''s''] @ map Lit ''://github.com/'' @ owner_name_items) s
        \<longleftrightarrow> re_match_here (map Lit ''http'' @ (Opt CHR ''s'' # map Lit ''://github.com/'' @ owner_name_items)) True s"
    unfolding re_match_def re_match_here_bol by simp
  also have "\<dots> \<longleftrightarrow> (\<exists>rest. s = ''http'' @ rest \<and>
        ((\<exists>rest'. rest = CHR ''s'' # rest' \<and>
            re_match_here (map Lit ''://github.com/'' @ owner_name_items) False rest')
         \<or> re_match_here (map Lit ''://github.com/'' @ owner_name_items) False rest))"
    unfolding re_match_here_lits [of "''http''"] re_match_here_opt by simp
  also have "\<dots> \<longleftrightarrow> (\<exists>rest. s = ''http'' @ rest \<and>
        ((\<exists>rest'. rest = CHR ''s'' # rest' \<and>
            (\<exists>t. rest' = ''://github.com/'' @ t \<and> starts_with_owner_name t))
         \<or> (\<exists>t. rest = ''://github.com/'' @ t \<and> starts_with_owner_name t)))"
    unfolding literal_prefix ..
  also have "\<dots> \<longleftrightarrow> (\<exists>t. (s = ''https://github.com/'' @ t \<or> s = ''http://github.com/'' @ t)
               \<and> starts_with_owner_name t)"
  proof
    assume "\<exists>rest. s = ''http'' @ rest \<and>
        ((\<exists>rest'. rest = CHR ''s'' # rest' \<and>
            (\<exists>t. rest' = ''://github.com/'' @ t \<and> starts_with_owner_name t))
         \<or> (\<exists>t. rest = ''://github.com/'' @ t \<and> starts_with_owner_name t))"
    then obtain rest where s: "s = ''http'' @ rest"
      and d: "(\<exists>rest'. rest = CHR ''s'' # rest' \<and>
                 (\<exists>t. rest' = ''://github.com/'' @ t \<and> starts_with_owner_name t))
              \<or> (\<exists>t. rest = ''://github.com/'' @ t \<and> starts_with_owner_name t)"
      by blast
    from d show "\<exists>t. (s = ''https://github.com/'' @ t \<or> s = ''http://github.com/'' @ t)
               \<and> starts_with_owner_name t"
    proof
      assume "\<exists>rest'. rest = CHR ''s'' # rest' \<and>
                 (\<exists>t. rest' = ''://github.com/'' @ t \<and> starts_with_owner_name t)"
      then obtain t where "rest = CHR ''s'' # ''://github.com/'' @ t" and t: "starts_with_owner_name t"
        by blast
      with s have "s = ''https://github.com/'' @ t" by simp
      with t show ?thesis by blast
    next
      assume "\<exists>t. rest = ''://github.com/'' @ t \<and> starts_with_owner_name t"
      then obtain t where "rest = ''://github.com/'' @ t" and t: "starts_with_owner_name t"
        by blast
      with s have "s = ''http://github.com/'' @ t" by simp
      with t show ?thesis by blast
    qed
  next
    assume "\<exists>t. (s = ''https://github.com/'' @ t \<or> s = ''http://github.com/'' @ t)
               \<and> starts_with_owner_name t"
    then obtain t where d: "s = ''https://github.com/'' @ t \<or> s = ''http://github.com/'' @ t"
      and t: "starts_with_owner_name t" by blast
    from d show "\<exists>rest. s = ''http'' @ rest \<and>
        ((\<exists>rest'. rest = CHR ''s'' # rest' \<and>
            (\<exists>t. rest' = ''://github.com/'' @ t \<and> starts_with_owner_name t))
         \<or> (\<exists>t. rest = ''://github.com/'' @ t \<and> starts_with_owner_name t))"
    proof
      assume "s = ''https://github.com/'' @ t"
      then have "s = ''http'' @ (CHR ''s'' # ''://github.com/'' @ t)" by simp
      with t show ?thesis by blast
    next
      assume "s = ''http://github.com/'' @ t"
      then have "s = ''http'' @ (''://github.com/'' @ t)" by simp
      with t show ?thesis by blast
    qed
  qed
  finally show ?thesis .
qed

lemma plain_pattern:
  "re_match (Bol # map Lit cs @ owner_name_items) s \<longleftrightarrow>
     (\<exists>t. s = cs @ t \<and> starts_with_owner_name t)"
  unfolding re_match_def re_match_here_bol literal_prefix ..

lemma bare_pattern:
  "re_match (Bol # owner_name_items @ [Eol]) s \<longleftrightarrow>
     is_owner_name s \<or> (\<exists>t. s = t @ [CHR 0x0A] \<and> is_owner_name t)"
  unfolding re_match_def re_match_here_bol owner_name_exact ..

lemma ex_disj_merge:
  "((\<exists>t. (P1 t \<or> P2 t) \<and> Q t) \<or> (\<exists>t. P3 t \<and> Q t) \<or> (\<exists>t. P4 t \<and> Q t) \<or> R) \<longleftrightarrow>
   ((\<exists>t. (P1 t \<or> P2 t \<or> P3 t \<or> P4 t) \<and> Q t) \<or> R)"
  by blast

lemma pattern_loop_github:
  "pattern_loop ps s = ''github'' \<longleftrightarrow> list_ex (\<lambda>p. re_match p s) ps"
  by (induction ps) simp_all

text \<open>The strings that the function classifies as GitHub repositories.\<close>

lemma determine_repository_type_iff:
  "determine_repository_type s = ''github'' \<longleftrightarrow>
     (\<exists>t. (s = ''https://github.com/'' @ t \<or> s = ''http://github.com/'' @ t \<or>
           s = ''git@github.com:'' @ t \<or> s = ''github.com/'' @ t) \<and> starts_with_owner_name t)
     \<or> is_owner_name s \<or> (\<exists>t. s = t @ [CHR 0x0A] \<and> is_owner_name t)"
proof -
  have "determine_repository_type s = ''github'' \<longleftrightarrow>
          re_match (Bol # map Lit ''http'' @ [Opt CHR ''s''] @ map Lit ''://github.com/'' @ owner_name_items) s
          \<or> re_match (Bol # map Lit ''git@github.com:'' @ owner_name_items) s
          \<or> re_match (Bol # map Lit ''github.com/'' @ owner_name_items) s
          \<or> re_match (Bol # owner_name_items @ [Eol]) s"
    by (simp only: determine_repository_type_def github_patterns_def pattern_loop_github
          list_ex_Nil_iff list_ex_Cons_iff simp_thms)
  also have "\<dots> \<longleftrightarrow>
          (\<exists>t. (s = ''https://github.com/'' @ t \<or> s = ''http://github.com/'' @ t)
                \<and> starts_with_owner_name t)
          \<or> (\<exists>t. s = ''git@github.com:'' @ t \<and> starts_with_owner_name t)
          \<or> (\<exists>t. s = ''github.com/'' @ t \<and> starts_with_owner_name t)
          \<or> (is_owner_name s \<or> (\<exists>t. s = t @ [CHR 0x0A] \<and> is_owner_name t))"
    by (simp only: https_pattern plain_pattern bare_pattern)
  also have "\<dots> \<longleftrightarrow>
     (\<exists>t. (s = ''https://github.com/'' @ t \<or> s = ''http://github.com/'' @ t \<or>
           s = ''git@github.com:'' @ t \<or> s = ''github.com/'' @ t) \<and> starts_with_owner_name t)
     \<or> is_owner_name s \<or> (\<exists>t. s = t @ [CHR 0x0A] \<and> is_owner_name t)"
    by (rule ex_disj_merge)
  finally show ?thesis .
qed

lemma pattern_loop_values: "pattern_loop ps s = ''github'' \<or> pattern_loop ps s = ''local''"
  by (induction ps) simp_all

lemma determine_repository_type_values:
  "determine_repository_type s = ''github'' \<or> determine_repository_type s = ''local''"
  unfolding determine_repository_type_def by (rule pattern_loop_values)

text \<open>Without a newline at the end, the bare form is matched as a whole.\<close>

lemma determine_repository_type_no_newline:
  assumes "s = [] \<or> last s \<noteq> CHR 0x0A"
  shows "determine_repository_type s = ''github'' \<longleftrightarrow>
     (\<exists>t. (s = ''https://github.com/'' @ t \<or> s = ''http://github.com/'' @ t \<or>
           s = ''git@github.com:'' @ t \<or> s = ''github.com/'' @ t) \<and> starts_with_owner_name t)
     \<or> is_owner_name s"
proof -
  from assms have "\<not> (\<exists>t. s = t @ [CHR 0x0A] \<and> is_owner_name t)" by auto
  then show ?thesis by (simp only: determine_repository_type_iff simp_thms)
qed


text \<open>The examples of the specification and of the repository's tests.\<close>

lemma repository_type_examples:
  "determine_repository_type ''https://github.com/acme/widget'' = ''github''"
  "determine_repository_type ''acme/widget'' = ''github''"
  "determine_repository_type ''/home/x/project'' = ''local''"
  "determine_repository_type [CHR ''C'', CHR '':'', CHR 0x5C, CHR ''p'', CHR ''r'', CHR ''o'', CHR ''j''] = ''local''"
  "determine_repository_type ''git@github.com:owner/repo.git'' = ''github''"
  by (simp_all add: determine_repository_type_def github_patterns_def owner_name_items_def
        re_match_def word_or_hyphen_def is_word_char_def)

text \<open>
  C9. The claim takes the fourth form to be exactly \<^verbatim>\<open>OWNER/NAME\<close>, both segments
  made of word characters and hyphens. The code accepts one string more for each such
  pair: \<^verbatim>\<open>$\<close> also holds before a final newline, so a string that ends in a newline,
  which is neither a word character nor a hyphen, is classified as a GitHub repository.
\<close>

theorem bare_form_trailing_newline:
  "determine_repository_type ''acme/widget\<newline>'' = ''github'' \<and>
   \<not> list_all word_or_hyphen ''widget\<newline>''"
  by (simp add: determine_repository_type_def github_patterns_def owner_name_items_def
        re_match_def word_or_hyphen_def is_word_char_def)


section \<open>The local checker on a missing path\<close>





section \<open>The GitHub checker when no query is answered\<close>

lemma add_check_eq: "add_check r n c p m s = r\<lparr>checks := checks r @ [mk_check n c p m s]\<rparr>"
  by (simp add: add_check_def)

lemma add_check_fields:
  "add_check r (name c) (category c) (passed c) (message c) (severity c) = r\<lparr>checks := checks r @ [c]\<rparr>"
  by (simp add: add_check_def mk_check_def)

lemma add_all_eq: "add_all r cs = r\<lparr>checks := checks r @ cs\<rparr>"
proof (induction cs arbitrary: r)
  case Nil
  show ?case by (simp add: add_all_def)
next
  case (Cons c cs)
  have "add_all r (c # cs) = add_all (r\<lparr>checks := checks r @ [c]\<rparr>) cs"
    by (simp add: add_all_def add_check_fields)
  then show ?case by (simp add: Cons.IH)
qed

lemma run_standard_checks_empty:
  "run_standard_checks report [] =
     Inr (add_all report
       [mk_check ''Python Version'' ''Configuration'' False ''pyproject.toml not found or invalid'' ''error'',
        mk_check ''Poetry Version'' ''Configuration'' False ''No pyproject.toml found'' ''error'',
        mk_check ''Linter/Formatter'' ''Code Quality'' False ''No configuration found'' ''error'',
        mk_check ''Type Checker'' ''Code Quality'' False ''No configuration found'' ''error'',
        mk_check ''Test Framework'' ''Testing'' False ''No configuration found'' ''error'',
        mk_check ''Repository Keywords'' ''Configuration'' False ''No pyproject.toml found'' ''error''])"
  by (simp add: run_standard_checks_def check_python_version_def check_poetry_configuration_def
        check_code_quality_tools_def check_testing_configuration_def check_repository_keywords_def
        add_all_eq)

text \<open>A remote source that answers no query.\<close>

lemma unanswered_run:
  assumes "gh args = TimeoutExpired \<or> gh args = CalledProcessError"
  shows "run_gh_command gh args = Inr None"
  using assms by (auto simp: run_gh_command_def)

lemma unanswered_file_exists:
  assumes "\<forall>args. gh args = TimeoutExpired \<or> gh args = CalledProcessError"
  shows "file_exists gh repo path = Inr False"
  using assms by (simp add: file_exists_def unanswered_run)

lemma unanswered_content:
  assumes "\<forall>args. gh args = TimeoutExpired \<or> gh args = CalledProcessError"
  shows "get_file_content gh b64decode repo path = Inr None"
  using assms by (simp add: get_file_content_def unanswered_run str_truthy_def)

lemma unanswered_additional_files:
  assumes "\<forall>args. gh args = TimeoutExpired \<or> gh args = CalledProcessError"
  shows "check_additional_files_github gh b64decode report repo [] =
     Inr (add_all report
       [mk_check ''README.md'' ''Documentation'' False ''README.md missing'' ''error'',
        mk_check ''SRD.md'' ''Documentation'' False ''System Readiness Document missing'' ''error'',
        mk_check ''Poetry Lock File'' ''Configuration'' True ''No problems noted'' ''info'',
        mk_check ''Python Manager Workflow'' ''CI/CD'' False ''Missing PythonManager.yml workflow'' ''error'',
        mk_check ''Ruff Formatting Workflow'' ''CI/CD'' False
          ''Missing Ruff auto-formatting workflow'' ''warning'',
        mk_check ''SonarCloud'' ''Code Quality'' False ''SonarCloud not configured'' ''warning''])"
  using assms
  by (simp add: check_additional_files_github_def unanswered_file_exists unanswered_run
        uses_poetry_def str_truthy_def sonar_check_def add_all_eq add_check_eq)

lemma unanswered_topics:
  assumes "\<forall>args. gh args = TimeoutExpired \<or> gh args = CalledProcessError"
  shows "check_repository_topics gh json_loads report repo =
     Inr (add_check report ''Repository Topics'' ''Configuration'' False
            ''Could not fetch repository information'' ''error'')"
  using assms
  by (simp add: check_repository_topics_def get_repo_info_def unanswered_run str_truthy_def)

text \<open>A \<^verbatim>\<open>gh\<close> that can always be started: no outcome of a command is propagated.\<close>

lemma started_run:
  assumes "gh args \<noteq> NotStarted"
  shows "\<exists>r. run_gh_command gh args = Inr r"
  using assms by (cases "gh args") (simp_all add: run_gh_command_def)

lemma started_file_exists:
  assumes "\<forall>args. gh args \<noteq> NotStarted"
  shows "\<exists>b. file_exists gh repo path = Inr b"
proof -
  from started_run assms obtain r
    where "run_gh_command gh [''api'', ''/repos/'' @ repo @ ''/contents/'' @ path, ''--jq'', ''.name''] = Inr r"
    by blast
  then show ?thesis by (simp add: file_exists_def)
qed

lemma started_content:
  assumes "\<forall>args. gh args \<noteq> NotStarted"
  shows "\<exists>c. get_file_content gh b64decode repo path = Inr c"
proof -
  from started_run assms obtain r1
    where r1: "run_gh_command gh [''api'', ''/repos/'' @ repo @ ''/contents/'' @ path, ''-q'', ''.content'',
                                ''--header'', ''Accept: application/vnd.github.raw''] = Inr r1"
    by blast
  from started_run assms obtain r2
    where r2: "run_gh_command gh [''api'', ''/repos/'' @ repo @ ''/contents/'' @ path,
                                       ''--header'', ''Accept: application/vnd.github.raw''] = Inr r2"
    by blast
  show ?thesis
    unfolding get_file_content_def r1 r2
    by (simp add: Let_def split: option.splits)
qed

lemma started_sonar_loop:
  assumes "\<forall>args. gh args \<noteq> NotStarted"
  shows "\<exists>b. sonar_remote_loop gh b64decode repo names = Inr b"
proof (induction names)
  case Nil
  show ?case by (rule exI [of _ False]) simp
next
  case (Cons n names)
  from started_content [OF assms] obtain c
    where c: "get_file_content gh b64decode repo (''.github/workflows/'' @ n) = Inr c" by blast
  from Cons obtain b where b: "sonar_remote_loop gh b64decode repo names = Inr b" by blast
  show ?case using c b by auto
qed

text \<open>A computation that is not aborted by the transport.\<close>

lemma iobind_not_os:
  assumes "m \<noteq> Inl OSError" and "\<And>x. f x \<noteq> Inl OSError"
  shows "iobind m f \<noteq> Inl OSError"
  using assms by (cases m) (simp_all add: iobind_def)

lemma lift_error_not_os: "lift_error m \<noteq> Inl OSError"
  by (cases m) simp_all

lemma Inr_not_os: "Inr x \<noteq> Inl OSError"
  by simp

lemma started_not_os:
  assumes "\<exists>x. m = Inr x"
  shows "m \<noteq> Inl OSError"
  using assms by auto

lemma if_not_os:
  assumes "a \<noteq> Inl OSError" and "b \<noteq> Inl OSError"
  shows "(if c then a else b) \<noteq> Inl OSError"
  using assms by simp

lemma started_additional_files:
  assumes "\<forall>args. gh args \<noteq> NotStarted"
  shows "check_additional_files_github gh b64decode report repo config \<noteq> Inl OSError"
proof -
  have f: "\<And>path. file_exists gh repo path \<noteq> Inl OSError"
    using started_file_exists [OF assms] by (rule started_not_os)
  have r: "\<And>args. run_gh_command gh args \<noteq> Inl OSError"
    using started_run assms by (intro started_not_os) blast
  have l: "\<And>names. sonar_remote_loop gh b64decode repo names \<noteq> Inl OSError"
    using started_sonar_loop [OF assms] by (rule started_not_os)
  show ?thesis
    unfolding check_additional_files_github_def Let_def
    by (intro iobind_not_os if_not_os f r l lift_error_not_os Inr_not_os)
qed


lemma started_topics:
  assumes "\<forall>args. gh args \<noteq> NotStarted"
  shows "check_repository_topics gh json_loads report repo \<noteq> Inl OSError"
proof -
  have r: "\<And>args. run_gh_command gh args \<noteq> Inl OSError"
    using started_run assms by (intro started_not_os) blast
  show ?thesis
    unfolding check_repository_topics_def get_repo_info_def
    by (intro iobind_not_os if_not_os r lift_error_not_os Inr_not_os)
qed

lemma parse_repo_spec_not_os: "parse_repo_spec repo_spec \<noteq> Inl OSError"
  by (simp add: parse_repo_spec_def Let_def)

lemma started_load_config:
  assumes "\<forall>args. gh args \<noteq> NotStarted"
  shows "\<exists>c. load_config_github gh b64decode toml_loads repo = Inr c"
proof -
  from started_content [OF assms] obtain c
    where "get_file_content gh b64decode repo ''pyproject.toml'' = Inr c" by blast
  then show ?thesis
    by (simp add: load_config_github_def split: option.splits)
qed

text \<open>
  No time-out and no failing exit status of any command aborts a remote scan: the only
  exceptions it can raise are those of Python itself (a malformed repository
  specification, an ill-typed value).
\<close>

lemma started_scan:
  assumes "\<forall>args. gh args \<noteq> NotStarted"
  shows "check_repository_github gh b64decode toml_loads json_loads repo_spec \<noteq> Inl OSError"
  unfolding check_repository_github_def Let_def
  by (intro iobind_not_os parse_repo_spec_not_os lift_error_not_os
        started_not_os [OF started_load_config [OF assms]]
        started_additional_files [OF assms] started_topics [OF assms])


text \<open>
  C7. A \<^verbatim>\<open>gh\<close> command that times out or exits with a failure makes
  \<^verbatim>\<open>_run_gh_command\<close> return \<^verbatim>\<open>None\<close>, and \<^verbatim>\<open>_file_exists\<close> then returns
  false; nothing is raised. Even when every command of a scan times out or fails, every
  stage still runs: the report holds the six results of the standard checks on the empty
  configuration, the six results on the additional files, and the result on the topics.
  And whatever the commands of a scan do, once started, none of their outcomes is raised
  out of the scan.
\<close>

theorem gh_failure_is_absence:
  "(gh args = TimeoutExpired \<or> gh args = CalledProcessError \<longrightarrow>
      run_gh_command gh args = Inr None) \<and>
   (gh [''api'', ''/repos/'' @ repo @ ''/contents/'' @ path, ''--jq'', ''.name''] = TimeoutExpired \<or>
    gh [''api'', ''/repos/'' @ repo @ ''/contents/'' @ path, ''--jq'', ''.name''] = CalledProcessError \<longrightarrow>
      file_exists gh repo path = Inr False) \<and>
   ((\<forall>args. gh args = TimeoutExpired \<or> gh args = CalledProcessError) \<and>
    parse_repo_spec repo_spec = Inr repo \<longrightarrow>
      check_repository_github gh b64decode toml_loads json_loads repo_spec =
        Inr \<lparr>repo_identifier = ''https://github.com/'' @ repo, repo_name = repo,
             repo_type = ''github'', checks = checks_nothing_answered, metadata = []\<rparr>) \<and>
   ((\<forall>args. gh args \<noteq> NotStarted) \<longrightarrow>
      check_repository_github gh b64decode toml_loads json_loads repo_spec \<noteq> Inl OSError)"
proof (intro conjI impI)
  assume "gh args = TimeoutExpired \<or> gh args = CalledProcessError"
  then show "run_gh_command gh args = Inr None" by (rule unanswered_run)
next
  assume "gh [''api'', ''/repos/'' @ repo @ ''/contents/'' @ path, ''--jq'', ''.name''] = TimeoutExpired \<or>
    gh [''api'', ''/repos/'' @ repo @ ''/contents/'' @ path, ''--jq'', ''.name''] = CalledProcessError"
  then show "file_exists gh repo path = Inr False"
    by (simp add: file_exists_def unanswered_run)
next
  assume a: "(\<forall>args. gh args = TimeoutExpired \<or> gh args = CalledProcessError) \<and>
    parse_repo_spec repo_spec = Inr repo"
  then have all: "\<forall>args. gh args = TimeoutExpired \<or> gh args = CalledProcessError"
    and p: "parse_repo_spec repo_spec = Inr repo" by simp_all
  have l: "load_config_github gh b64decode toml_loads repo = Inr []"
    by (simp add: load_config_github_def unanswered_content [OF all] str_truthy_def)
  show "check_repository_github gh b64decode toml_loads json_loads repo_spec =
        Inr \<lparr>repo_identifier = ''https://github.com/'' @ repo, repo_name = repo,
             repo_type = ''github'', checks = checks_nothing_answered, metadata = []\<rparr>"
    by (simp add: check_repository_github_def p l run_standard_checks_empty
          unanswered_additional_files [OF all] unanswered_topics [OF all]
          add_all_eq add_check_eq new_report_def checks_nothing_answered_def)
next
  assume "\<forall>args. gh args \<noteq> NotStarted"
  then show "check_repository_github gh b64decode toml_loads json_loads repo_spec \<noteq> Inl OSError"
    by (rule started_scan)
qed

theorem gh_failure_is_absence_witness:
  "(\<forall>args. gh_times_out args = TimeoutExpired \<or> gh_times_out args = CalledProcessError) \<and>
   (\<forall>args. gh_times_out args \<noteq> NotStarted) \<and>
   parse_repo_spec ''https://github.com/acme/widget.git'' = Inr ''acme/widget'' \<and>
   run_gh_command gh_times_out [''api'', ''/repos/acme/widget''] = Inr None \<and>
   file_exists gh_times_out ''acme/widget'' ''README.md'' = Inr False \<and>
   check_repository_github gh_times_out b64_fails toml_fails json_fails
       ''https://github.com/acme/widget.git'' =
     Inr \<lparr>repo_identifier = ''https://github.com/acme/widget'', repo_name = ''acme/widget'',
          repo_type = ''github'', checks = checks_nothing_answered, metadata = []\<rparr>"
proof -
  have all: "\<forall>args. gh_times_out args = TimeoutExpired \<or> gh_times_out args = CalledProcessError"
    by (simp add: gh_times_out_def)
  have started: "\<forall>args. gh_times_out args \<noteq> NotStarted"
    by (simp add: gh_times_out_def)
  have p: "parse_repo_spec ''https://github.com/acme/widget.git'' = Inr ''acme/widget''"
    by code_simp
  show ?thesis
    using gh_failure_is_absence [of gh_times_out "[''api'', ''/repos/acme/widget'']"
        "''acme/widget''" "''README.md''" "''https://github.com/acme/widget.git''"
        b64_fails toml_fails json_fails]
      all started p
    by simp
qed


end
